theory Spec2Isabelle
  imports Main
begin

section \<open>Time\<close>

text \<open>
  Go's \<^verbatim>\<open>time.Time\<close> is modelled as the number of nanoseconds since the Unix epoch and
  \<^verbatim>\<open>time.Duration\<close> as a number of nanoseconds, both unbounded integers.
  \<^verbatim>\<open>time.Now()\<close> is an explicit argument of every function that reads the clock, one
  argument per read.
\<close>

type_synonym time = int
type_synonym Duration = int

definition Second :: Duration where
  "Second = 1000000000"

definition Hour :: Duration where
  "Hour = 3600 * Second"

text \<open>
  \<^verbatim>\<open>t.Truncate(d)\<close> rounds \<open>t\<close> down to a multiple of \<open>d\<close> and returns \<open>t\<close> unchanged
  when \<open>d <= 0\<close>.
\<close>

definition Truncate :: "time \<Rightarrow> Duration \<Rightarrow> time" where
  "Truncate t d = (if d \<le> 0 then t else t - t mod d)"

text \<open>
  The token library (golang-jwt v5, pinned in go.mod) stores every date claim as a
  \<^verbatim>\<open>NumericDate\<close>: \<^verbatim>\<open>jwt.NewNumericDate(t)\<close> truncates \<open>t\<close> to the package's
  \<^verbatim>\<open>TimePrecision\<close>, which is one second.
\<close>

definition TimePrecision :: Duration where
  "TimePrecision = Second"

definition NewNumericDate :: "time \<Rightarrow> time" where
  "NewNumericDate t = Truncate t TimePrecision"

section \<open>Token codec (internal/auth/jwt.go)\<close>

text \<open>
  \<^verbatim>\<open>Claims\<close> embeds \<^verbatim>\<open>jwt.RegisteredClaims\<close>; Go promotes the embedded fields, so the record
  is flat. The date claims are pointers in Go and may be absent from a parsed token. The
  registered claims \<^verbatim>\<open>aud\<close> and \<^verbatim>\<open>jti\<close> are never set or read by the repository and are left
  out.
\<close>

record Claims =
  UserID :: string
  Email :: string
  Roles :: "string list"
  ExpiresAt :: "time option"
  IssuedAt :: "time option"
  NotBefore :: "time option"
  Issuer :: string
  Subject :: string

record TokenManager =
  secretKey :: string
  issuer :: string

definition NewTokenManager :: "string \<Rightarrow> string \<Rightarrow> TokenManager" where
  "NewTokenManager key iss = \<lparr>secretKey = key, issuer = iss\<rparr>"

text \<open>
  The signing methods the library registers. Only the three HS methods have the Go type
  \<^verbatim>\<open>*jwt.SigningMethodHMAC\<close>.
\<close>

datatype SigningMethod =
    SigningMethodHS256
  | SigningMethodHS384
  | SigningMethodHS512
  | SigningMethodNone
  | SigningMethodAsymmetric string

fun isSigningMethodHMAC :: "SigningMethod \<Rightarrow> bool" where
  "isSigningMethodHMAC SigningMethodHS256 = True"
| "isSigningMethodHMAC SigningMethodHS384 = True"
| "isSigningMethodHMAC SigningMethodHS512 = True"
| "isSigningMethodHMAC _ = False"

text \<open>
  The compact serialization is kept symbolic: a token string either does not decode
  (fewer or more than three segments, bad base64url, JSON that does not fit the claims
  struct), or it decodes to a header algorithm, the claims and the signature bytes. The
  header algorithm is \<open>None\<close> when the library has no signing method of that name.
  The keyed hash itself (HMAC over the first two segments) is a parameter of the model:
  every theorem holds for every such function.
\<close>

datatype tokenString =
    Undecodable string
  | Compact "SigningMethod option" Claims string

type_synonym hmac = "SigningMethod \<Rightarrow> string \<Rightarrow> SigningMethod \<times> Claims \<Rightarrow> string"

datatype key_error = ErrSignatureInvalid

datatype claims_error = ErrTokenExpired | ErrTokenNotValidYet

datatype jwt_error =
    ErrTokenMalformed
  | ErrTokenUnverifiable "key_error option"
  | ErrTokenSignatureInvalid
  | ErrTokenInvalidClaims "claims_error list"
  | ErrTokenInvalid
  | ErrInvalidKeyType

record Token =
  Method :: SigningMethod
  Token_Claims :: Claims
  Signature :: string
  Valid :: bool

definition NewWithClaims :: "SigningMethod \<Rightarrow> Claims \<Rightarrow> Token" where
  "NewWithClaims m c = \<lparr>Method = m, Token_Claims = c, Signature = [], Valid = False\<rparr>"

text \<open>
  The claims travel as JSON. Go strings are byte strings, and \<^verbatim>\<open>json.Marshal\<close> writes a
  string rune by rune: it decodes the bytes as UTF-8 with \<^verbatim>\<open>utf8.DecodeRuneInString\<close> and
  writes the replacement character U+FFFD (the bytes EF BF BD once decoded) for every byte
  at which no valid encoding starts. \<open>DecodeRuneInString s\<close> is the length of the encoding
  at the head of \<open>s\<close>, or \<open>None\<close> where Go returns \<^verbatim>\<open>(RuneError, 1)\<close>: the second byte of a
  sequence has a range that depends on the first byte, the later bytes are in 80..BF.
\<close>

definition inRange :: "nat \<Rightarrow> nat \<Rightarrow> char \<Rightarrow> bool" where
  "inRange lo hi c = (lo \<le> of_char c \<and> (of_char c :: nat) \<le> hi)"

fun continuationBytes :: "nat \<Rightarrow> string \<Rightarrow> bool" where
  "continuationBytes 0 s = True"
| "continuationBytes (Suc n) [] = False"
| "continuationBytes (Suc n) (c # cs) = (inRange 0x80 0xBF c \<and> continuationBytes n cs)"

definition multiByte :: "nat \<Rightarrow> nat \<Rightarrow> nat \<Rightarrow> string \<Rightarrow> nat option" where
  "multiByte n lo hi rest =
     (case rest of
        [] \<Rightarrow> None
      | b1 # bs \<Rightarrow>
          if inRange lo hi b1 \<and> continuationBytes (n - 2) bs then Some n else None)"

fun DecodeRuneInString :: "string \<Rightarrow> nat option" where
  "DecodeRuneInString [] = None"
| "DecodeRuneInString (b0 # rest) =
     (let x = (of_char b0 :: nat) in
      if x < 0x80 then Some 1
      else if 0xC2 \<le> x \<and> x \<le> 0xDF then multiByte 2 0x80 0xBF rest
      else if x = 0xE0 then multiByte 3 0xA0 0xBF rest
      else if x = 0xED then multiByte 3 0x80 0x9F rest
      else if 0xE1 \<le> x \<and> x \<le> 0xEF then multiByte 3 0x80 0xBF rest
      else if x = 0xF0 then multiByte 4 0x90 0xBF rest
      else if 0xF1 \<le> x \<and> x \<le> 0xF3 then multiByte 4 0x80 0xBF rest
      else if x = 0xF4 then multiByte 4 0x80 0x8F rest
      else None)"

text \<open>
  \<open>jsonString s\<close> is the string that comes back when \<open>s\<close> is marshalled and unmarshalled:
  valid encodings are copied (the escapes that \<^verbatim>\<open>json.Marshal\<close> writes are undone by
  \<^verbatim>\<open>json.Unmarshal\<close>), every other byte becomes U+FFFD. The first argument of the loop
  counts the bytes of the current encoding that are still to be copied.
  \<open>ValidString\<close> is \<^verbatim>\<open>utf8.ValidString\<close>.
\<close>

fun jsonCopy :: "nat \<Rightarrow> string \<Rightarrow> string" where
  "jsonCopy k [] = []"
| "jsonCopy (Suc k) (c # cs) = c # jsonCopy k cs"
| "jsonCopy 0 (c # cs) =
     (case DecodeRuneInString (c # cs) of
        None \<Rightarrow> [CHR 0xEF, CHR 0xBF, CHR 0xBD] @ jsonCopy 0 cs
      | Some n \<Rightarrow> c # jsonCopy (n - 1) cs)"

definition jsonString :: "string \<Rightarrow> string" where
  "jsonString s = jsonCopy 0 s"

fun validFrom :: "nat \<Rightarrow> string \<Rightarrow> bool" where
  "validFrom k [] = True"
| "validFrom (Suc k) (c # cs) = validFrom k cs"
| "validFrom 0 (c # cs) =
     (case DecodeRuneInString (c # cs) of
        None \<Rightarrow> False
      | Some n \<Rightarrow> validFrom (n - 1) cs)"

definition ValidString :: "string \<Rightarrow> bool" where
  "ValidString s = validFrom 0 s"

text \<open>
  The claims as they come back from the wire: every string has gone through JSON. The
  dates are whole seconds already (\<^verbatim>\<open>NewNumericDate\<close>) and come back as they are, for the
  clock values of \<^verbatim>\<open>time.Now()\<close>.
\<close>

definition jsonClaims :: "Claims \<Rightarrow> Claims" where
  "jsonClaims c =
     c\<lparr>UserID := jsonString (UserID c), Email := jsonString (Email c),
       Roles := map jsonString (Roles c), Issuer := jsonString (Issuer c),
       Subject := jsonString (Subject c)\<rparr>"

text \<open>
  \<^verbatim>\<open>token.SignedString(key)\<close> with a byte-slice key: only an HS method accepts it. The
  token string is the serialization of the marshalled claims, so what it decodes to is
  \<open>jsonClaims\<close> of the claims, and the keyed hash is taken over that serialization.
\<close>

definition SignedString :: "hmac \<Rightarrow> Token \<Rightarrow> string \<Rightarrow> jwt_error + tokenString" where
  "SignedString H token key =
     (if isSigningMethodHMAC (Method token)
      then let wire = jsonClaims (Token_Claims token)
           in Inr (Compact (Some (Method token)) wire (H (Method token) key (Method token, wire)))
      else Inl ErrInvalidKeyType)"

text \<open>
  The library's default claims validator: the expiry and the not-before instant are
  checked when present, and the failures are joined.
  A token is expired unless \<open>now\<close> is before \<open>exp\<close>, and not yet valid when \<open>now\<close> is
  before \<open>nbf\<close>.
\<close>

definition verifyExpiresAt :: "Claims \<Rightarrow> time \<Rightarrow> claims_error list" where
  "verifyExpiresAt c now =
     (case ExpiresAt c of None \<Rightarrow> []
      | Some exp \<Rightarrow> if now < exp then [] else [ErrTokenExpired])"

definition verifyNotBefore :: "Claims \<Rightarrow> time \<Rightarrow> claims_error list" where
  "verifyNotBefore c now =
     (case NotBefore c of None \<Rightarrow> []
      | Some nbf \<Rightarrow> if \<not> now < nbf then [] else [ErrTokenNotValidYet])"

definition Validate :: "Claims \<Rightarrow> time \<Rightarrow> claims_error list" where
  "Validate c now = verifyExpiresAt c now @ verifyNotBefore c now"

text \<open>
  \<^verbatim>\<open>jwt.ParseWithClaims(tokenString, &Claims{}, keyFunc)\<close>: decode, look the key up, verify
  the signature, validate the claims. \<open>now\<close> is the validator's clock read.
\<close>

definition ParseWithClaims ::
  "hmac \<Rightarrow> tokenString \<Rightarrow> (SigningMethod \<Rightarrow> key_error + string) \<Rightarrow> time \<Rightarrow> jwt_error + Token" where
  "ParseWithClaims H tokenStr keyFunc now =
     (case tokenStr of
        Undecodable _ \<Rightarrow> Inl ErrTokenMalformed
      | Compact alg claims sig \<Rightarrow>
          (case alg of
             None \<Rightarrow> Inl (ErrTokenUnverifiable None)
           | Some m \<Rightarrow>
               (case keyFunc m of
                  Inl err \<Rightarrow> Inl (ErrTokenUnverifiable (Some err))
                | Inr key \<Rightarrow>
                    if H m key (m, claims) \<noteq> sig then Inl ErrTokenSignatureInvalid
                    else (case Validate claims now of
                            [] \<Rightarrow> Inr \<lparr>Method = m, Token_Claims = claims,
                                        Signature = sig, Valid = True\<rparr>
                          | errs \<Rightarrow> Inl (ErrTokenInvalidClaims errs)))))"

text \<open>
  \<^verbatim>\<open>GenerateToken\<close> reads the clock three times: for the expiry, the issued-at and the
  not-before claim. It returns the token and the expiry as computed, before the
  truncation of \<^verbatim>\<open>NewNumericDate\<close>.
\<close>

definition GenerateToken ::
  "hmac \<Rightarrow> TokenManager \<Rightarrow> time \<Rightarrow> time \<Rightarrow> time \<Rightarrow> string \<Rightarrow> string \<Rightarrow> string list
     \<Rightarrow> jwt_error + tokenString \<times> time" where
  "GenerateToken H tm now1 now2 now3 userID email roles =
     (let expirationTime = now1 + 24 * Hour;
          claims = \<lparr>UserID = userID, Email = email, Roles = roles,
                    ExpiresAt = Some (NewNumericDate expirationTime),
                    IssuedAt = Some (NewNumericDate now2),
                    NotBefore = Some (NewNumericDate now3),
                    Issuer = issuer tm, Subject = userID\<rparr>;
          token = NewWithClaims SigningMethodHS256 claims
      in case SignedString H token (secretKey tm) of
           Inl err \<Rightarrow> Inl err
         | Inr tokenStr \<Rightarrow> Inr (tokenStr, expirationTime))"

definition keyFunc :: "TokenManager \<Rightarrow> SigningMethod \<Rightarrow> key_error + string" where
  "keyFunc tm m = (if \<not> isSigningMethodHMAC m then Inl ErrSignatureInvalid else Inr (secretKey tm))"

definition ValidateToken :: "hmac \<Rightarrow> TokenManager \<Rightarrow> tokenString \<Rightarrow> time \<Rightarrow> jwt_error + Claims" where
  "ValidateToken H tm tokenStr now =
     (case ParseWithClaims H tokenStr (keyFunc tm) now of
        Inl err \<Rightarrow> Inl err
      | Inr token \<Rightarrow> if Valid token then Inr (Token_Claims token) else Inl ErrTokenInvalid)"

text \<open>
  \<^verbatim>\<open>TokenManager.RefreshToken\<close>: \<open>now0\<close> is the validator's clock read, the other three
  are those of \<^verbatim>\<open>GenerateToken\<close>.
\<close>

definition RefreshToken ::
  "hmac \<Rightarrow> TokenManager \<Rightarrow> tokenString \<Rightarrow> time \<Rightarrow> time \<Rightarrow> time \<Rightarrow> time
     \<Rightarrow> jwt_error + tokenString \<times> time" where
  "RefreshToken H tm tokenStr now0 now1 now2 now3 =
     (case ValidateToken H tm tokenStr now0 of
        Inl err \<Rightarrow> Inl err
      | Inr claims \<Rightarrow> GenerateToken H tm now1 now2 now3 (UserID claims) (Email claims) (Roles claims))"

definition ExtractUserInfo :: "Claims \<Rightarrow> string \<times> string \<times> string list" where
  "ExtractUserInfo c = (UserID c, Email c, Roles c)"

fun hasRoleLoop :: "string list \<Rightarrow> string \<Rightarrow> bool" where
  "hasRoleLoop [] role = False"
| "hasRoleLoop (userRole # rest) role = (if userRole = role then True else hasRoleLoop rest role)"

definition HasRole :: "Claims \<Rightarrow> string \<Rightarrow> bool" where
  "HasRole c role = hasRoleLoop (Roles c) role"

fun HasAnyRole :: "Claims \<Rightarrow> string list \<Rightarrow> bool" where
  "HasAnyRole c [] = False"
| "HasAnyRole c (role # rest) = (if HasRole c role then True else HasAnyRole c rest)"

section \<open>Authorization gate (package auth, middleware)\<close>

text \<open>
  Go's \<^verbatim>\<open>interface{}\<close> values that the middleware stores in the request context or
  writes into a response body.
\<close>

datatype any =
    AnyString string
  | AnyStrings "string list"
  | AnyClaims Claims
  | AnyBool bool

text \<open>
  The part of \<^verbatim>\<open>gin.Context\<close> the middleware uses: the request headers and the key/value
  store filled by \<^verbatim>\<open>c.Set\<close>. \<^verbatim>\<open>gin.H\<close> is a list of fields in the order of the source.
\<close>

record Context =
  Header :: "string \<rightharpoonup> string"
  Keys :: "string \<rightharpoonup> any"

type_synonym H = "(string \<times> any) list"

text \<open>
  What a middleware does with a request: it answers with a status and a body and aborts
  the chain, it hands the (updated) context to the next handler, or it panics.
\<close>

datatype outcome =
    Abort nat H
  | Next Context
  | Panic

definition StatusOK :: nat where
  "StatusOK = 200"

definition StatusUnauthorized :: nat where
  "StatusUnauthorized = 401"

definition StatusForbidden :: nat where
  "StatusForbidden = 403"

definition StatusInternalServerError :: nat where
  "StatusInternalServerError = 500"

definition GetHeader :: "Context \<Rightarrow> string \<Rightarrow> string" where
  "GetHeader c key = (case Header c key of None \<Rightarrow> [] | Some v \<Rightarrow> v)"

definition Set :: "Context \<Rightarrow> string \<Rightarrow> any \<Rightarrow> Context" where
  "Set c key v = c\<lparr>Keys := (Keys c)(key \<mapsto> v)\<rparr>"

definition Get :: "Context \<Rightarrow> string \<Rightarrow> any option" where
  "Get c key = Keys c key"

definition TrimPrefix :: "string \<Rightarrow> string \<Rightarrow> string" where
  "TrimPrefix s prefix =
     (if take (length prefix) s = prefix then drop (length prefix) s else s)"

text \<open>
  \<^verbatim>\<open>AuthMiddleware\<close>. The header value after \<^verbatim>\<open>Bearer \<close> is a string; \<open>decode\<close> is the
  library's reading of it as a compact serialization (any function), \<open>now\<close> the clock
  read of the validator.
\<close>

definition AuthMiddleware ::
  "hmac \<Rightarrow> (string \<Rightarrow> tokenString) \<Rightarrow> TokenManager \<Rightarrow> time \<Rightarrow> Context \<Rightarrow> outcome" where
  "AuthMiddleware H decode tokenManager now c =
     (let authHeader = GetHeader c ''Authorization'' in
      if authHeader = [] then
        Abort StatusUnauthorized
          [(''error'', AnyString ''Authorization header required''),
           (''code'', AnyString ''MISSING_AUTH_HEADER'')]
      else
        let tokenStr = TrimPrefix authHeader ''Bearer '' in
        if tokenStr = authHeader then
          Abort StatusUnauthorized
            [(''error'', AnyString ''Bearer token required''),
             (''code'', AnyString ''INVALID_AUTH_FORMAT'')]
        else
          (case ValidateToken H tokenManager (decode tokenStr) now of
             Inl err \<Rightarrow>
               Abort StatusUnauthorized
                 [(''error'', AnyString ''Invalid or expired token''),
                  (''code'', AnyString ''INVALID_TOKEN'')]
           | Inr claims \<Rightarrow>
               Next (Set (Set (Set (Set c
                 ''user_id'' (AnyString (UserID claims)))
                 ''user_email'' (AnyString (Email claims)))
                 ''user_roles'' (AnyStrings (Roles claims)))
                 ''claims'' (AnyClaims claims))))"

definition RequireRole :: "string list \<Rightarrow> Context \<Rightarrow> outcome" where
  "RequireRole allowedRoles c =
     (case Get c ''claims'' of
        None \<Rightarrow>
          Abort StatusForbidden
            [(''error'', AnyString ''User authentication required''),
             (''code'', AnyString ''NOT_AUTHENTICATED'')]
      | Some claims \<Rightarrow>
          (case claims of
             AnyClaims userClaims \<Rightarrow>
               if \<not> HasAnyRole userClaims allowedRoles then
                 Abort StatusForbidden
                   [(''error'', AnyString ''Insufficient permissions''),
                    (''code'', AnyString ''INSUFFICIENT_PERMISSIONS''),
                    (''required_roles'', AnyStrings allowedRoles),
                    (''user_roles'', AnyStrings (Roles userClaims))]
               else Next c
           | _ \<Rightarrow>
               Abort StatusForbidden
                 [(''error'', AnyString ''Invalid user claims''),
                  (''code'', AnyString ''INVALID_CLAIMS'')]))"

text \<open>
  The role-to-permission table of \<^verbatim>\<open>checkPermission\<close> (its local \<^verbatim>\<open>permissions\<close>): a Go
  map of maps, looked up by key only, so association lists with \<open>map_of\<close> model it.
\<close>

definition permissionTable :: "(string \<times> (string \<times> string list) list) list" where
  "permissionTable =
     [(''admin'',
         [(''patients'', [''create'', ''read'', ''update'', ''delete'']),
          (''observations'', [''create'', ''read'', ''update'', ''delete'']),
          (''users'', [''create'', ''read'', ''update'', ''delete''])]),
      (''practitioner'',
         [(''patients'', [''create'', ''read'', ''update'']),
          (''observations'', [''create'', ''read'', ''update''])]),
      (''nurse'',
         [(''patients'', [''read'']),
          (''observations'', [''read''])]),
      (''lab-tech'',
         [(''patients'', [''read'']),
          (''observations'', [''create'', ''read'', ''update''])])]"

fun actionAllowed :: "string list \<Rightarrow> string \<Rightarrow> bool" where
  "actionAllowed [] action = False"
| "actionAllowed (allowedAction # rest) action =
     (if allowedAction = action then True else actionAllowed rest action)"

fun checkPermission :: "string list \<Rightarrow> string \<Rightarrow> string \<Rightarrow> bool" where
  "checkPermission [] resource action = False"
| "checkPermission (role # rest) resource action =
     (case map_of permissionTable role of
        Some resourcePerms \<Rightarrow>
          (case map_of resourcePerms resource of
             Some actions \<Rightarrow>
               if actionAllowed actions action then True
               else checkPermission rest resource action
           | None \<Rightarrow> checkPermission rest resource action)
      | None \<Rightarrow> checkPermission rest resource action)"

text \<open>
  \<^verbatim>\<open>RequirePermission\<close>. Its type assertion on the stored claims has no \<^verbatim>\<open>ok\<close> result, so a
  value of another type panics.
\<close>

definition RequirePermission :: "string \<Rightarrow> string \<Rightarrow> Context \<Rightarrow> outcome" where
  "RequirePermission resource action c =
     (case Get c ''user_id'' of
        None \<Rightarrow>
          Abort StatusForbidden
            [(''error'', AnyString ''User authentication required''),
             (''code'', AnyString ''NOT_AUTHENTICATED'')]
      | Some userID \<Rightarrow>
          (case Get c ''claims'' of
             None \<Rightarrow>
               Abort StatusForbidden
                 [(''error'', AnyString ''User claims not found''),
                  (''code'', AnyString ''MISSING_CLAIMS'')]
           | Some claims \<Rightarrow>
               (case claims of
                  AnyClaims userClaims \<Rightarrow>
                    let hasPermission = checkPermission (Roles userClaims) resource action in
                    if \<not> hasPermission then
                      Abort StatusForbidden
                        [(''error'', AnyString ''Insufficient permissions''),
                         (''code'', AnyString ''INSUFFICIENT_PERMISSIONS''),
                         (''resource'', AnyString resource),
                         (''action'', AnyString action),
                         (''user_id'', userID)]
                    else Next c
                | _ \<Rightarrow> Panic)))"

definition GetClaims :: "Context \<Rightarrow> Claims option" where
  "GetClaims c =
     (case Get c ''claims'' of
        None \<Rightarrow> None
      | Some claims \<Rightarrow> (case claims of AnyClaims userClaims \<Rightarrow> Some userClaims | _ \<Rightarrow> None))"

section \<open>Data model (package models)\<close>

text \<open>
  The structs of the models package with the fields the authorization core reads or
  writes. The timestamps that the object-relational mapper maintains by itself
  (\<^verbatim>\<open>CreatedAt\<close>, \<^verbatim>\<open>UpdatedAt\<close>, \<^verbatim>\<open>LastLogin\<close>) are left out. Field names carry the struct's
  name, since several structs share \<^verbatim>\<open>ID\<close>, \<^verbatim>\<open>Name\<close>, \<^verbatim>\<open>Email\<close> and \<^verbatim>\<open>Roles\<close>.
\<close>

record Permission =
  Permission_ID :: string
  Permission_Name :: string
  Permission_Description :: string
  Permission_Resource :: string
  Permission_Action :: string

record Role =
  Role_ID :: string
  Role_Name :: string
  Role_Description :: string
  Role_Permissions :: "Permission list"

record User =
  User_ID :: string
  User_Email :: string
  User_Password :: string
  User_FirstName :: string
  User_LastName :: string
  User_Roles :: "Role list"
  User_Active :: bool

record UserRole =
  UserRole_UserID :: string
  UserRole_RoleID :: string
  UserRole_GrantedBy :: string
  UserRole_GrantedAt :: time

record RolePermission =
  RolePermission_RoleID :: string
  RolePermission_PermissionID :: string

definition GetRoleNames :: "User \<Rightarrow> string list" where
  "GetRoleNames u = map Role_Name (User_Roles u)"

definition Role_BeforeCreate :: "string \<Rightarrow> Role \<Rightarrow> Role" where
  "Role_BeforeCreate newUUID r = (if Role_ID r = [] then r\<lparr>Role_ID := newUUID\<rparr> else r)"

definition Permission_BeforeCreate :: "string \<Rightarrow> Permission \<Rightarrow> Permission" where
  "Permission_BeforeCreate newUUID p =
     (if Permission_ID p = [] then p\<lparr>Permission_ID := newUUID\<rparr> else p)"

section \<open>Storage\<close>

text \<open>
  The database as the five tables of the schema, each a list of rows. A stored role or
  user row keeps its association field empty: the associations live in the two join
  tables and are loaded on demand.
\<close>

record DB =
  t_users :: "User list"
  t_roles :: "Role list"
  t_permissions :: "Permission list"
  t_user_roles :: "UserRole list"
  t_role_permissions :: "RolePermission list"

datatype gorm_error =
    ErrRecordNotFound
  | ErrDuplicatedKey
  | ErrStorage string

text \<open>
  Every database statement of a function has a label: its position in the source of the
  function and, inside a loop, the name of the item of the iteration. The connection says
  which statements fail by themselves (lost connection, timeout) and which identifier
  \<^verbatim>\<open>uuid.New()\<close> draws in the \<^verbatim>\<open>BeforeCreate\<close> hook of a creating statement.
\<close>

datatype stmt =
    Stmt nat
  | LoopStmt nat string

record conn =
  fault :: "stmt \<Rightarrow> gorm_error option"
  uuid :: "stmt \<Rightarrow> string"

text \<open>
  \<^verbatim>\<open>Where(cond).First(&row)\<close>, \<^verbatim>\<open>Where(cond).Find(&rows)\<close> and \<^verbatim>\<open>Where(cond).Delete(...)\<close> on the
  rows of one table. \<^verbatim>\<open>First\<close> fails with \<^verbatim>\<open>ErrRecordNotFound\<close> when no row matches,
  \<^verbatim>\<open>Find\<close> and \<^verbatim>\<open>Delete\<close> do not; \<^verbatim>\<open>Delete\<close> also reports the number of rows affected. Rows
  are taken in table order. (\<^verbatim>\<open>First\<close> sorts by primary key; every condition the source
  gives it is on a unique column or on the primary key, so at most one row matches in a
  database that satisfies its constraints. Foreign keys are not modelled: no statement of
  the source can break one.)
\<close>

definition firstWhere :: "gorm_error option \<Rightarrow> ('a \<Rightarrow> bool) \<Rightarrow> 'a list \<Rightarrow> gorm_error + 'a" where
  "firstWhere flt cond rows =
     (case flt of
        Some e \<Rightarrow> Inl e
      | None \<Rightarrow> (case filter cond rows of [] \<Rightarrow> Inl ErrRecordNotFound | r # _ \<Rightarrow> Inr r))"

definition findWhere :: "gorm_error option \<Rightarrow> ('a \<Rightarrow> bool) \<Rightarrow> 'a list \<Rightarrow> gorm_error + 'a list" where
  "findWhere flt cond rows =
     (case flt of Some e \<Rightarrow> Inl e | None \<Rightarrow> Inr (filter cond rows))"

definition deleteWhere ::
  "gorm_error option \<Rightarrow> ('a \<Rightarrow> bool) \<Rightarrow> 'a list \<Rightarrow> gorm_error + 'a list \<times> nat" where
  "deleteWhere flt cond rows =
     (case flt of
        Some e \<Rightarrow> Inl e
      | None \<Rightarrow> Inr (filter (\<lambda>r. \<not> cond r) rows, length (filter cond rows)))"

text \<open>
  \<^verbatim>\<open>Create\<close>: the hook fills an empty id, then the row is inserted unless it breaks the
  primary key or the unique index on the name. Every struct the source passes to
  \<^verbatim>\<open>Create\<close> has an empty association field.
\<close>

definition createRoleRow :: "gorm_error option \<Rightarrow> string \<Rightarrow> Role \<Rightarrow> DB \<Rightarrow> gorm_error + Role \<times> DB" where
  "createRoleRow flt newUUID role db =
     (case flt of
        Some e \<Rightarrow> Inl e
      | None \<Rightarrow>
          let r = Role_BeforeCreate newUUID role in
          if Role_ID r \<in> set (map Role_ID (t_roles db)) \<or>
             Role_Name r \<in> set (map Role_Name (t_roles db))
          then Inl ErrDuplicatedKey
          else Inr (r, db\<lparr>t_roles := t_roles db @ [r\<lparr>Role_Permissions := []\<rparr>]\<rparr>))"

definition createPermissionRow ::
  "gorm_error option \<Rightarrow> string \<Rightarrow> Permission \<Rightarrow> DB \<Rightarrow> gorm_error + Permission \<times> DB" where
  "createPermissionRow flt newUUID perm db =
     (case flt of
        Some e \<Rightarrow> Inl e
      | None \<Rightarrow>
          let p = Permission_BeforeCreate newUUID perm in
          if Permission_ID p \<in> set (map Permission_ID (t_permissions db)) \<or>
             Permission_Name p \<in> set (map Permission_Name (t_permissions db))
          then Inl ErrDuplicatedKey
          else Inr (p, db\<lparr>t_permissions := t_permissions db @ [p]\<rparr>))"

definition userRoleKey :: "UserRole \<Rightarrow> string \<times> string" where
  "userRoleKey a = (UserRole_UserID a, UserRole_RoleID a)"

definition createUserRoleRow :: "gorm_error option \<Rightarrow> UserRole \<Rightarrow> DB \<Rightarrow> gorm_error + DB" where
  "createUserRoleRow flt assignment db =
     (case flt of
        Some e \<Rightarrow> Inl e
      | None \<Rightarrow>
          if userRoleKey assignment \<in> set (map userRoleKey (t_user_roles db))
          then Inl ErrDuplicatedKey
          else Inr (db\<lparr>t_user_roles := t_user_roles db @ [assignment]\<rparr>))"

text \<open>
  \<^verbatim>\<open>Model(role).Association("Permissions").Append(&perms)\<close>: one join row per permission,
  skipping the rows that are already there.
\<close>

definition appendPermissions ::
  "gorm_error option \<Rightarrow> Role \<Rightarrow> Permission list \<Rightarrow> DB \<Rightarrow> gorm_error + Role \<times> DB" where
  "appendPermissions flt role perms db =
     (case flt of
        Some e \<Rightarrow> Inl e
      | None \<Rightarrow>
          let links = map (\<lambda>p. \<lparr>RolePermission_RoleID = Role_ID role,
                                RolePermission_PermissionID = Permission_ID p\<rparr>) perms;
              new = filter (\<lambda>l. l \<notin> set (t_role_permissions db)) (remdups links)
          in Inr (role\<lparr>Role_Permissions := Role_Permissions role @ perms\<rparr>,
                  db\<lparr>t_role_permissions := t_role_permissions db @ new\<rparr>))"

text \<open>
  \<^verbatim>\<open>Preload("Permissions")\<close> and \<^verbatim>\<open>Preload("Roles")\<close>: the rows the join table links.
  The query behind \<^verbatim>\<open>Preload("Roles")\<close> has no \<^verbatim>\<open>ORDER BY\<close>, so the order of a user's roles
  is the database's choice: \<open>rank\<close> gives the position at which the database returns each
  role row (any function; rows of equal rank keep the table order).
\<close>

definition loadPermissions :: "DB \<Rightarrow> Role \<Rightarrow> Role" where
  "loadPermissions db r =
     r\<lparr>Role_Permissions :=
         filter (\<lambda>p. \<lparr>RolePermission_RoleID = Role_ID r,
                      RolePermission_PermissionID = Permission_ID p\<rparr> \<in> set (t_role_permissions db))
           (t_permissions db)\<rparr>"

definition loadRoles :: "(Role \<Rightarrow> nat) \<Rightarrow> DB \<Rightarrow> User \<Rightarrow> User" where
  "loadRoles rank db u =
     u\<lparr>User_Roles :=
         sort_key rank
           (filter (\<lambda>r. (User_ID u, Role_ID r) \<in> set (map userRoleKey (t_user_roles db)))
              (t_roles db))\<rparr>"

section \<open>Permission registry (internal/auth/rbac.go)\<close>

text \<open>
  The service returns errors built with \<^verbatim>\<open>fmt.Errorf\<close>; each message of the source is one
  constructor, with the wrapped storage error where the message wraps one.
\<close>

datatype rbac_error =
    RoleAlreadyExists string
  | FailedToCreateRole gorm_error
  | FailedToFindPermissions gorm_error
  | FailedToAssociatePermissions gorm_error
  | UserNotFound gorm_error
  | RoleNotFound gorm_error
  | UserAlreadyHasRole
  | FailedToAssignRole gorm_error
  | FailedToRemoveRole gorm_error
  | RoleAssignmentNotFound
  | FailedToRemoveRoleFromUsers gorm_error
  | FailedToRemoveRolePermissions gorm_error
  | FailedToDeleteRole gorm_error
  | CommitFailed gorm_error
  | FailedToCreatePermissionNamed string gorm_error
  | FailedToCheckPermission string gorm_error
  | FailedToCreateRoleNamed string gorm_error
  | FailedToFindPermissionsForRole string gorm_error
  | FailedToAssignPermissionsToRole string gorm_error
  | FailedToCheckRole string gorm_error

text \<open>
  \<^verbatim>\<open>CreateRole\<close>. Statements: 0 the lookup by name, 1 the insert, 2 the lookup of the
  permissions, 3 the association, 4 the reload (whose error the source drops). There is no
  transaction: each statement takes effect when it runs.
\<close>

definition CreateRole ::
  "conn \<Rightarrow> string \<Rightarrow> string \<Rightarrow> string list \<Rightarrow> DB \<Rightarrow> (rbac_error + Role) \<times> DB" where
  "CreateRole cn name description permissionIDs db =
     (case firstWhere (fault cn (Stmt 0)) (\<lambda>r. Role_Name r = name) (t_roles db) of
        Inr existingRole \<Rightarrow> (Inl (RoleAlreadyExists name), db)
      | Inl _ \<Rightarrow>
          (case createRoleRow (fault cn (Stmt 1)) (uuid cn (Stmt 1))
                  \<lparr>Role_ID = [], Role_Name = name, Role_Description = description,
                   Role_Permissions = []\<rparr> db of
             Inl err \<Rightarrow> (Inl (FailedToCreateRole err), db)
           | Inr (role, db1) \<Rightarrow>
               if length permissionIDs > 0 then
                 (case findWhere (fault cn (Stmt 2)) (\<lambda>p. Permission_ID p \<in> set permissionIDs)
                         (t_permissions db1) of
                    Inl err \<Rightarrow> (Inl (FailedToFindPermissions err), db1)
                  | Inr perms \<Rightarrow>
                      (case appendPermissions (fault cn (Stmt 3)) role perms db1 of
                         Inl err \<Rightarrow> (Inl (FailedToAssociatePermissions err), db1)
                       | Inr (role2, db2) \<Rightarrow>
                           (case firstWhere (fault cn (Stmt 4)) (\<lambda>r. Role_ID r = Role_ID role2)
                                   (t_roles db2) of
                              Inl _ \<Rightarrow> (Inr role2, db2)
                            | Inr row \<Rightarrow> (Inr (loadPermissions db2 row), db2))))
               else
                 (case firstWhere (fault cn (Stmt 4)) (\<lambda>r. Role_ID r = Role_ID role) (t_roles db1) of
                    Inl _ \<Rightarrow> (Inr role, db1)
                  | Inr row \<Rightarrow> (Inr (loadPermissions db1 row), db1))))"

text \<open>
  \<^verbatim>\<open>AssignRoleToUser\<close>. Statements: 0 the user lookup, 1 the role lookup, 2 the lookup of
  the assignment, 3 the insert. \<open>now\<close> is the clock read for \<^verbatim>\<open>GrantedAt\<close>.
\<close>

definition AssignRoleToUser ::
  "conn \<Rightarrow> time \<Rightarrow> string \<Rightarrow> string \<Rightarrow> string \<Rightarrow> DB \<Rightarrow> rbac_error option \<times> DB" where
  "AssignRoleToUser cn now userID roleID grantedBy db =
     (case firstWhere (fault cn (Stmt 0)) (\<lambda>u. User_ID u = userID) (t_users db) of
        Inl err \<Rightarrow> (Some (UserNotFound err), db)
      | Inr user \<Rightarrow>
          (case firstWhere (fault cn (Stmt 1)) (\<lambda>r. Role_ID r = roleID) (t_roles db) of
             Inl err \<Rightarrow> (Some (RoleNotFound err), db)
           | Inr role \<Rightarrow>
               (case firstWhere (fault cn (Stmt 2))
                       (\<lambda>a. UserRole_UserID a = userID \<and> UserRole_RoleID a = roleID)
                       (t_user_roles db) of
                  Inr existingAssignment \<Rightarrow> (Some UserAlreadyHasRole, db)
                | Inl _ \<Rightarrow>
                    (case createUserRoleRow (fault cn (Stmt 3))
                            \<lparr>UserRole_UserID = userID, UserRole_RoleID = roleID,
                             UserRole_GrantedBy = grantedBy, UserRole_GrantedAt = now\<rparr> db of
                       Inl err \<Rightarrow> (Some (FailedToAssignRole err), db)
                     | Inr db1 \<Rightarrow> (None, db1)))))"

definition RemoveRoleFromUser :: "conn \<Rightarrow> string \<Rightarrow> string \<Rightarrow> DB \<Rightarrow> rbac_error option \<times> DB" where
  "RemoveRoleFromUser cn userID roleID db =
     (case deleteWhere (fault cn (Stmt 0))
             (\<lambda>a. UserRole_UserID a = userID \<and> UserRole_RoleID a = roleID) (t_user_roles db) of
        Inl err \<Rightarrow> (Some (FailedToRemoveRole err), db)
      | Inr (rows, rowsAffected) \<Rightarrow>
          if rowsAffected = 0 then (Some RoleAssignmentNotFound, db\<lparr>t_user_roles := rows\<rparr>)
          else (None, db\<lparr>t_user_roles := rows\<rparr>))"

text \<open>
  \<^verbatim>\<open>DeleteRole\<close> runs in a transaction: \<open>tx\<close> is the state inside it, and a rollback or a
  failed commit leaves the database as it was. Statements: 0, 1 and 2 the three deletes, 3
  the commit.
\<close>

definition DeleteRole :: "conn \<Rightarrow> string \<Rightarrow> DB \<Rightarrow> rbac_error option \<times> DB" where
  "DeleteRole cn roleID db =
     (case deleteWhere (fault cn (Stmt 0)) (\<lambda>a. UserRole_RoleID a = roleID) (t_user_roles db) of
        Inl err \<Rightarrow> (Some (FailedToRemoveRoleFromUsers err), db)
      | Inr (assignments, _) \<Rightarrow>
          let tx1 = db\<lparr>t_user_roles := assignments\<rparr> in
          (case deleteWhere (fault cn (Stmt 1)) (\<lambda>l. RolePermission_RoleID l = roleID)
                  (t_role_permissions tx1) of
             Inl err \<Rightarrow> (Some (FailedToRemoveRolePermissions err), db)
           | Inr (links, _) \<Rightarrow>
               let tx2 = tx1\<lparr>t_role_permissions := links\<rparr> in
               (case deleteWhere (fault cn (Stmt 2)) (\<lambda>r. Role_ID r = roleID) (t_roles tx2) of
                  Inl err \<Rightarrow> (Some (FailedToDeleteRole err), db)
                | Inr (rest, _) \<Rightarrow>
                    let tx3 = tx2\<lparr>t_roles := rest\<rparr> in
                    (case fault cn (Stmt 3) of
                       Some err \<Rightarrow> (Some (CommitFailed err), db)
                     | None \<Rightarrow> (None, tx3)))))"

text \<open>\<^verbatim>\<open>InitializeDefaultRoles\<close>: the default permissions and the default roles.\<close>

definition defaultPermissions :: "Permission list" where
  "defaultPermissions =
     [\<lparr>Permission_ID = [], Permission_Name = ''patients:create'', Permission_Description = ''Create patients'', Permission_Resource = ''patients'', Permission_Action = ''create''\<rparr>,
      \<lparr>Permission_ID = [], Permission_Name = ''patients:read'', Permission_Description = ''Read patients'', Permission_Resource = ''patients'', Permission_Action = ''read''\<rparr>,
      \<lparr>Permission_ID = [], Permission_Name = ''patients:update'', Permission_Description = ''Update patients'', Permission_Resource = ''patients'', Permission_Action = ''update''\<rparr>,
      \<lparr>Permission_ID = [], Permission_Name = ''patients:delete'', Permission_Description = ''Delete patients'', Permission_Resource = ''patients'', Permission_Action = ''delete''\<rparr>,
      \<lparr>Permission_ID = [], Permission_Name = ''observations:create'', Permission_Description = ''Create observations'', Permission_Resource = ''observations'', Permission_Action = ''create''\<rparr>,
      \<lparr>Permission_ID = [], Permission_Name = ''observations:read'', Permission_Description = ''Read observations'', Permission_Resource = ''observations'', Permission_Action = ''read''\<rparr>,
      \<lparr>Permission_ID = [], Permission_Name = ''observations:update'', Permission_Description = ''Update observations'', Permission_Resource = ''observations'', Permission_Action = ''update''\<rparr>,
      \<lparr>Permission_ID = [], Permission_Name = ''observations:delete'', Permission_Description = ''Delete observations'', Permission_Resource = ''observations'', Permission_Action = ''delete''\<rparr>,
      \<lparr>Permission_ID = [], Permission_Name = ''users:create'', Permission_Description = ''Create users'', Permission_Resource = ''users'', Permission_Action = ''create''\<rparr>,
      \<lparr>Permission_ID = [], Permission_Name = ''users:read'', Permission_Description = ''Read users'', Permission_Resource = ''users'', Permission_Action = ''read''\<rparr>,
      \<lparr>Permission_ID = [], Permission_Name = ''users:update'', Permission_Description = ''Update users'', Permission_Resource = ''users'', Permission_Action = ''update''\<rparr>,
      \<lparr>Permission_ID = [], Permission_Name = ''users:delete'', Permission_Description = ''Delete users'', Permission_Resource = ''users'', Permission_Action = ''delete''\<rparr>]"

definition rolePermissions :: "(string \<times> string list) list" where
  "rolePermissions =
     [(''admin'',
         [''patients:create'', ''patients:read'', ''patients:update'', ''patients:delete'',
          ''observations:create'', ''observations:read'', ''observations:update'', ''observations:delete'',
          ''users:create'', ''users:read'', ''users:update'', ''users:delete'']),
      (''practitioner'',
         [''patients:create'', ''patients:read'', ''patients:update'',
          ''observations:create'', ''observations:read'', ''observations:update'']),
      (''nurse'',
         [''patients:read'', ''observations:read'']),
      (''lab-tech'',
         [''patients:read'', ''observations:create'', ''observations:read'', ''observations:update''])]"

text \<open>
  The first loop, over the default permissions. The statements of an iteration are
  labelled with the permission's name: 0 the lookup, 1 the insert.
\<close>

fun seedPermissions :: "conn \<Rightarrow> Permission list \<Rightarrow> DB \<Rightarrow> rbac_error option \<times> DB" where
  "seedPermissions cn [] db = (None, db)"
| "seedPermissions cn (perm # rest) db =
     (case firstWhere (fault cn (LoopStmt 0 (Permission_Name perm)))
             (\<lambda>p. Permission_Name p = Permission_Name perm) (t_permissions db) of
        Inr existing \<Rightarrow> seedPermissions cn rest db
      | Inl err \<Rightarrow>
          if err = ErrRecordNotFound then
            (case createPermissionRow (fault cn (LoopStmt 1 (Permission_Name perm)))
                    (uuid cn (LoopStmt 1 (Permission_Name perm))) perm db of
               Inl err2 \<Rightarrow> (Some (FailedToCreatePermissionNamed (Permission_Name perm) err2), db)
             | Inr (created, db1) \<Rightarrow> seedPermissions cn rest db1)
          else (Some (FailedToCheckPermission (Permission_Name perm) err), db))"

text \<open>
  The second loop, over the entries of the role map. The statements of an iteration are
  labelled with the role's name: 2 the lookup, 3 the insert, 4 the lookup of the
  permissions by name, 5 the association.
\<close>

fun seedRoles :: "conn \<Rightarrow> (string \<times> string list) list \<Rightarrow> DB \<Rightarrow> rbac_error option \<times> DB" where
  "seedRoles cn [] db = (None, db)"
| "seedRoles cn ((roleName, permNames) # rest) db =
     (case firstWhere (fault cn (LoopStmt 2 roleName)) (\<lambda>r. Role_Name r = roleName) (t_roles db) of
        Inr existing \<Rightarrow> seedRoles cn rest db
      | Inl err \<Rightarrow>
          if err = ErrRecordNotFound then
            (case createRoleRow (fault cn (LoopStmt 3 roleName)) (uuid cn (LoopStmt 3 roleName))
                    \<lparr>Role_ID = [], Role_Name = roleName,
                     Role_Description = ''Default '' @ roleName @ '' role'',
                     Role_Permissions = []\<rparr> db of
               Inl err2 \<Rightarrow> (Some (FailedToCreateRoleNamed roleName err2), db)
             | Inr (role, db1) \<Rightarrow>
                 (case findWhere (fault cn (LoopStmt 4 roleName))
                         (\<lambda>p. Permission_Name p \<in> set permNames) (t_permissions db1) of
                    Inl err2 \<Rightarrow> (Some (FailedToFindPermissionsForRole roleName err2), db1)
                  | Inr perms \<Rightarrow>
                      (case appendPermissions (fault cn (LoopStmt 5 roleName)) role perms db1 of
                         Inl err2 \<Rightarrow> (Some (FailedToAssignPermissionsToRole roleName err2), db1)
                       | Inr (role2, db2) \<Rightarrow> seedRoles cn rest db2)))
          else (Some (FailedToCheckRole roleName err), db))"

text \<open>
  Go visits the entries of a map in an unspecified order: \<open>visit\<close> is the order of this
  run, a rearrangement of \<open>rolePermissions\<close>.
\<close>

definition InitializeDefaultRoles ::
  "conn \<Rightarrow> (string \<times> string list) list \<Rightarrow> DB \<Rightarrow> rbac_error option \<times> DB" where
  "InitializeDefaultRoles cn visit db =
     (case seedPermissions cn defaultPermissions db of
        (Some err, db1) \<Rightarrow> (Some err, db1)
      | (None, db1) \<Rightarrow> seedRoles cn visit db1)"

section \<open>Refresh endpoint (internal/handlers/auth.go)\<close>

record UserInfo =
  UserInfo_ID :: string
  UserInfo_Email :: string
  UserInfo_FirstName :: string
  UserInfo_LastName :: string
  UserInfo_Roles :: "string list"
  UserInfo_Active :: bool

record AuthResponse =
  AuthResponse_Token :: tokenString
  AuthResponse_ExpiresAt :: time
  AuthResponse_User :: UserInfo

text \<open>
  The message of an error response is the text of a Go error or empty; the model keeps the
  error itself, \<open>None\<close> for the empty message.
\<close>

record ErrorResponse =
  ErrorResponse_Error :: string
  ErrorResponse_Message :: "jwt_error option"
  ErrorResponse_Code :: string

datatype body =
    ErrorBody ErrorResponse
  | AuthBody AuthResponse

text \<open>
  \<^verbatim>\<open>AuthHandler.RefreshToken\<close>, the handler of \<^verbatim>\<open>POST /api/v1/auth/refresh\<close>, which runs
  behind \<^verbatim>\<open>AuthMiddleware\<close>. Statement 0 is the lookup of the active user with its roles
  preloaded, in the order \<open>rank\<close> of this run. The three clock reads are those of
  \<^verbatim>\<open>GenerateToken\<close>.
\<close>

definition AuthHandler_RefreshToken ::
  "hmac \<Rightarrow> conn \<Rightarrow> (Role \<Rightarrow> nat) \<Rightarrow> TokenManager \<Rightarrow> DB \<Rightarrow> time \<Rightarrow> time \<Rightarrow> time \<Rightarrow> Context
     \<Rightarrow> nat \<times> body" where
  "AuthHandler_RefreshToken H cn rank tokenManager db now1 now2 now3 c =
     (case GetClaims c of
        None \<Rightarrow>
          (StatusUnauthorized,
           ErrorBody \<lparr>ErrorResponse_Error = ''Invalid token'', ErrorResponse_Message = None,
                      ErrorResponse_Code = ''INVALID_TOKEN''\<rparr>)
      | Some claims \<Rightarrow>
          (case firstWhere (fault cn (Stmt 0))
                  (\<lambda>u. User_ID u = UserID claims \<and> User_Active u = True) (t_users db) of
             Inl err \<Rightarrow>
               (StatusUnauthorized,
                ErrorBody \<lparr>ErrorResponse_Error = ''User not found or inactive'',
                           ErrorResponse_Message = None, ErrorResponse_Code = ''USER_INACTIVE''\<rparr>)
           | Inr row \<Rightarrow>
               let user = loadRoles rank db row;
                   roleNames = GetRoleNames user
               in (case GenerateToken H tokenManager now1 now2 now3
                          (User_ID user) (User_Email user) roleNames of
                     Inl err \<Rightarrow>
                       (StatusInternalServerError,
                        ErrorBody \<lparr>ErrorResponse_Error = ''Failed to generate token'',
                                   ErrorResponse_Message = Some err,
                                   ErrorResponse_Code = ''TOKEN_GENERATION_FAILED''\<rparr>)
                   | Inr (token, expiresAt) \<Rightarrow>
                       (StatusOK,
                        AuthBody \<lparr>AuthResponse_Token = token, AuthResponse_ExpiresAt = expiresAt,
                                  AuthResponse_User =
                                    \<lparr>UserInfo_ID = User_ID user, UserInfo_Email = User_Email user,
                                     UserInfo_FirstName = User_FirstName user,
                                     UserInfo_LastName = User_LastName user,
                                     UserInfo_Roles = roleNames,
                                     UserInfo_Active = User_Active user\<rparr>\<rparr>))))"

section \<open>Concrete inputs\<close>

text \<open>
  Fixed inputs for the evaluations below: a keyed hash, the token manager of the server
  (issuer as in \<^verbatim>\<open>NewAuthHandler\<close>), and a token issued half a second after a full second.
\<close>

definition constHmac :: hmac where
  "constHmac m key input = ''mac''"

definition exampleManager :: TokenManager where
  "exampleManager = NewTokenManager ''secret'' ''HealthHub API''"

definition exampleIssued :: "jwt_error + tokenString \<times> time" where
  "exampleIssued =
     GenerateToken constHmac exampleManager 1500000000 1500000000 1500000000
       ''u1'' ''pat@example.org'' [''practitioner'']"

text \<open>
  A second issued token, for an identity whose only role is \<^verbatim>\<open>patient\<close>; a reading of
  header strings as tokens that knows the two issued tokens; and a request that carries a
  bearer credential.
\<close>

definition examplePatientIssued :: "jwt_error + tokenString \<times> time" where
  "examplePatientIssued =
     GenerateToken constHmac exampleManager 1500000000 1500000000 1500000000
       ''u2'' ''sam@example.org'' [''patient'']"

definition exampleDecode :: "string \<Rightarrow> tokenString" where
  "exampleDecode s =
     (if s = ''practitioner-token'' then fst (projr exampleIssued)
      else if s = ''patient-token'' then fst (projr examplePatientIssued)
      else Undecodable s)"

definition bearerRequest :: "string \<Rightarrow> Context" where
  "bearerRequest s = \<lparr>Header = [''Authorization'' \<mapsto> ''Bearer '' @ s], Keys = Map.empty\<rparr>"

text \<open>
  A connection on which no statement fails, with some identifiers to draw; a database in
  which the identity \<^verbatim>\<open>u1\<close> holds the role admin; the claims of the example token, issued
  when the same identity held the role practitioner; and the context of a request with
  that token after \<^verbatim>\<open>AuthMiddleware\<close>.
\<close>

definition noFault :: "stmt \<Rightarrow> gorm_error option" where
  "noFault s = None"

definition exampleUuid :: "stmt \<Rightarrow> string" where
  "exampleUuid s =
     (case s of
        Stmt n \<Rightarrow> ''id-'' @ replicate n (CHR ''i'')
      | LoopStmt n name \<Rightarrow> ''id-'' @ replicate n (CHR ''i'') @ ''-'' @ name)"

definition exampleConn :: conn where
  "exampleConn = \<lparr>fault = noFault, uuid = exampleUuid\<rparr>"

definition exampleDB :: DB where
  "exampleDB =
     \<lparr>t_users =
        [\<lparr>User_ID = ''u1'', User_Email = ''pat@example.org'', User_Password = ''$2a$10$hash'',
          User_FirstName = ''Pat'', User_LastName = ''Lee'', User_Roles = [],
          User_Active = True\<rparr>],
      t_roles =
        [\<lparr>Role_ID = ''r-admin'', Role_Name = ''admin'', Role_Description = ''Default admin role'',
          Role_Permissions = []\<rparr>,
         \<lparr>Role_ID = ''r-pract'', Role_Name = ''practitioner'',
          Role_Description = ''Default practitioner role'', Role_Permissions = []\<rparr>],
      t_permissions =
        [\<lparr>Permission_ID = ''p-read'', Permission_Name = ''patients:read'',
          Permission_Description = ''Read patients'', Permission_Resource = ''patients'',
          Permission_Action = ''read''\<rparr>],
      t_user_roles =
        [\<lparr>UserRole_UserID = ''u1'', UserRole_RoleID = ''r-admin'', UserRole_GrantedBy = ''system'',
          UserRole_GrantedAt = 1800000000\<rparr>],
      t_role_permissions =
        [\<lparr>RolePermission_RoleID = ''r-admin'', RolePermission_PermissionID = ''p-read''\<rparr>]\<rparr>"

definition exampleClaims :: Claims where
  "exampleClaims =
     \<lparr>UserID = ''u1'', Email = ''pat@example.org'', Roles = [''practitioner''],
      ExpiresAt = Some 86401000000000, IssuedAt = Some 1000000000,
      NotBefore = Some 1000000000, Issuer = ''HealthHub API'', Subject = ''u1''\<rparr>"

definition exampleContext :: Context where
  "exampleContext =
     Set (Set (Set (Set (bearerRequest ''practitioner-token'')
       ''user_id'' (AnyString ''u1''))
       ''user_email'' (AnyString ''pat@example.org''))
       ''user_roles'' (AnyStrings [''practitioner'']))
       ''claims'' (AnyClaims exampleClaims)"

text \<open>A connection on which exactly the statement \<open>k\<close> fails.\<close>

definition failingAt :: "stmt \<Rightarrow> stmt \<Rightarrow> gorm_error option" where
  "failingAt k s = (if s = k then Some (ErrStorage ''connection lost'') else None)"

definition failingConn :: "stmt \<Rightarrow> conn" where
  "failingConn k = \<lparr>fault = failingAt k, uuid = exampleUuid\<rparr>"

text \<open>
  A token issued for an id and a role that are not valid UTF-8 (the bytes FF and C3 start
  no encoding), and an order in which the database returns role rows.
\<close>

definition exampleInvalidIssued :: "jwt_error + tokenString \<times> time" where
  "exampleInvalidIssued =
     GenerateToken constHmac exampleManager 1000000000 1000000000 1000000000
       (''u'' @ [CHR 0xFF]) ''pat@example.org'' [''nurse'' @ [CHR 0xC3]]"

definition exampleRank :: "Role \<Rightarrow> nat" where
  "exampleRank r = length (Role_Name r)"

section \<open>Properties of the token codec\<close>

lemma jsonCopy_valid: "validFrom k s \<Longrightarrow> jsonCopy k s = s"
  by (induction k s rule: jsonCopy.induct) (auto split: option.splits)

lemma jsonString_valid: "ValidString s \<Longrightarrow> jsonString s = s"
  by (simp add: ValidString_def jsonString_def jsonCopy_valid)

lemma map_jsonString_valid: "list_all ValidString xs \<Longrightarrow> map jsonString xs = xs"
  by (induction xs) (simp_all add: jsonString_valid)

lemma jsonClaims_dates:
  "ExpiresAt (jsonClaims c) = ExpiresAt c" "NotBefore (jsonClaims c) = NotBefore c"
  by (simp_all add: jsonClaims_def)

lemma GenerateToken_eq:
  "GenerateToken H tm now1 now2 now3 userID email roles =
     Inr (Compact (Some SigningMethodHS256)
            \<lparr>UserID = jsonString userID, Email = jsonString email, Roles = map jsonString roles,
             ExpiresAt = Some (NewNumericDate (now1 + 24 * Hour)),
             IssuedAt = Some (NewNumericDate now2),
             NotBefore = Some (NewNumericDate now3),
             Issuer = jsonString (issuer tm), Subject = jsonString userID\<rparr>
            (H SigningMethodHS256 (secretKey tm)
               (SigningMethodHS256,
                \<lparr>UserID = jsonString userID, Email = jsonString email,
                 Roles = map jsonString roles,
                 ExpiresAt = Some (NewNumericDate (now1 + 24 * Hour)),
                 IssuedAt = Some (NewNumericDate now2),
                 NotBefore = Some (NewNumericDate now3),
                 Issuer = jsonString (issuer tm), Subject = jsonString userID\<rparr>)),
          now1 + 24 * Hour)"
  by (simp add: GenerateToken_def SignedString_def NewWithClaims_def jsonClaims_def Let_def)

lemma ValidateToken_signed:
  "ValidateToken H tm
     (Compact (Some SigningMethodHS256) c
        (H SigningMethodHS256 (secretKey tm) (SigningMethodHS256, c))) now =
     (case Validate c now of [] \<Rightarrow> Inr c | errs \<Rightarrow> Inl (ErrTokenInvalidClaims errs))"
  by (simp add: ValidateToken_def ParseWithClaims_def keyFunc_def split: list.splits)

lemma GenerateToken_window:
  "\<exists>tok. GenerateToken H tm now1 now2 now3 userID email roles = Inr (tok, now1 + 24 * Hour) \<and>
     (\<forall>now'. NewNumericDate now3 \<le> now' \<and> now' < NewNumericDate (now1 + 24 * Hour) \<longrightarrow>
        (\<exists>c. ValidateToken H tm tok now' = Inr c \<and>
             UserID c = jsonString userID \<and> Email c = jsonString email \<and>
             Roles c = map jsonString roles))"
  unfolding GenerateToken_eq
  by (auto simp: ValidateToken_signed Validate_def verifyExpiresAt_def verifyNotBefore_def)

lemma jsonString_examples:
  "jsonString ''u1'' = ''u1''"
  "jsonString ''u2'' = ''u2''"
  "jsonString ''pat@example.org'' = ''pat@example.org''"
  "jsonString ''sam@example.org'' = ''sam@example.org''"
  "jsonString ''practitioner'' = ''practitioner''"
  "jsonString ''patient'' = ''patient''"
  "jsonString ''admin'' = ''admin''"
  "jsonString ''HealthHub API'' = ''HealthHub API''"
  by (simp_all add: jsonString_def)

lemma ValidString_examples:
  "ValidString ''u1''" "ValidString ''pat@example.org''" "ValidString ''practitioner''"
  by (simp_all add: ValidString_def)

lemma jsonString_invalid_examples:
  "jsonString (''u'' @ [CHR 0xFF]) = ''u'' @ [CHR 0xEF, CHR 0xBF, CHR 0xBD]"
  "jsonString (''nurse'' @ [CHR 0xC3]) = ''nurse'' @ [CHR 0xEF, CHR 0xBF, CHR 0xBD]"
  by (simp_all add: jsonString_def multiByte_def)

lemma exampleIssued_eq:
  "exampleIssued =
     Inr (Compact (Some SigningMethodHS256)
            \<lparr>UserID = ''u1'', Email = ''pat@example.org'', Roles = [''practitioner''],
             ExpiresAt = Some 86401000000000, IssuedAt = Some 1000000000,
             NotBefore = Some 1000000000, Issuer = ''HealthHub API'', Subject = ''u1''\<rparr>
            ''mac'',
          86401500000000)"
  by (simp add: exampleIssued_def exampleManager_def NewTokenManager_def GenerateToken_eq
      jsonString_examples constHmac_def NewNumericDate_def Truncate_def TimePrecision_def
      Hour_def Second_def)

lemma exampleInvalidIssued_eq:
  "exampleInvalidIssued =
     Inr (Compact (Some SigningMethodHS256)
            \<lparr>UserID = ''u'' @ [CHR 0xEF, CHR 0xBF, CHR 0xBD], Email = ''pat@example.org'',
             Roles = [''nurse'' @ [CHR 0xEF, CHR 0xBF, CHR 0xBD]],
             ExpiresAt = Some 86401000000000, IssuedAt = Some 1000000000,
             NotBefore = Some 1000000000, Issuer = ''HealthHub API'',
             Subject = ''u'' @ [CHR 0xEF, CHR 0xBF, CHR 0xBD]\<rparr>
            ''mac'',
          86401000000000)"
  by (simp add: exampleInvalidIssued_def exampleManager_def NewTokenManager_def GenerateToken_eq
      jsonString_examples jsonString_invalid_examples [simplified] constHmac_def
      NewNumericDate_def Truncate_def TimePrecision_def Hour_def Second_def)

text \<open>
  C1, as the code has it. \<^verbatim>\<open>GenerateToken\<close> always returns a token, together with the expiry
  \<open>now1 + 24h\<close>. The instants embedded in the token are truncated to whole seconds:
  \<open>exp = NewNumericDate (now1 + 24h)\<close> and \<open>nbf = NewNumericDate now3\<close>. Validating the
  token at \<open>now'\<close> succeeds whenever \<open>nbf \<le> now' < exp\<close> and returns the user id, the email
  and the role list as JSON carries them (\<open>jsonString\<close>): the same strings whenever they
  are valid UTF-8, and with U+FFFD for every invalid byte otherwise. Validation fails with
  an error that holds \<^verbatim>\<open>ErrTokenExpired\<close> whenever \<open>exp \<le> now'\<close>, and with one that holds
  \<^verbatim>\<open>ErrTokenNotValidYet\<close> whenever \<open>now' < nbf\<close>.
\<close>

theorem GenerateToken_ValidateToken_window:
  "\<exists>tok. GenerateToken H tm now1 now2 now3 userID email roles = Inr (tok, now1 + 24 * Hour) \<and>
     (\<forall>now'.
        (NewNumericDate now3 \<le> now' \<and> now' < NewNumericDate (now1 + 24 * Hour) \<longrightarrow>
           (\<exists>c. ValidateToken H tm tok now' = Inr c \<and>
                UserID c = jsonString userID \<and> Email c = jsonString email \<and>
                Roles c = map jsonString roles \<and>
                (ValidString userID \<longrightarrow> UserID c = userID) \<and>
                (ValidString email \<longrightarrow> Email c = email) \<and>
                (list_all ValidString roles \<longrightarrow> Roles c = roles))) \<and>
        (NewNumericDate (now1 + 24 * Hour) \<le> now' \<longrightarrow>
           (\<exists>errs. ValidateToken H tm tok now' = Inl (ErrTokenInvalidClaims errs) \<and>
                   ErrTokenExpired \<in> set errs)) \<and>
        (now' < NewNumericDate now3 \<longrightarrow>
           (\<exists>errs. ValidateToken H tm tok now' = Inl (ErrTokenInvalidClaims errs) \<and>
                   ErrTokenNotValidYet \<in> set errs)))"
  unfolding GenerateToken_eq
  by (auto simp: ValidateToken_signed Validate_def verifyExpiresAt_def verifyNotBefore_def
      jsonString_valid map_jsonString_valid)

text \<open>
  The theorem at the example token (issued at 1.5 s, all strings valid UTF-8): valid at
  2 s with the strings it was issued for, expired at 86401 s, not yet valid at 0.5 s.
\<close>

theorem GenerateToken_ValidateToken_window_witness:
  "\<exists>tok. exampleIssued = Inr (tok, 86401500000000) \<and>
     (\<exists>c. ValidateToken constHmac exampleManager tok 2000000000 = Inr c \<and>
          UserID c = ''u1'' \<and> Email c = ''pat@example.org'' \<and> Roles c = [''practitioner'']) \<and>
     (\<exists>errs. ValidateToken constHmac exampleManager tok 86401000000000
               = Inl (ErrTokenInvalidClaims errs) \<and> ErrTokenExpired \<in> set errs) \<and>
     (\<exists>errs. ValidateToken constHmac exampleManager tok 500000000
               = Inl (ErrTokenInvalidClaims errs) \<and> ErrTokenNotValidYet \<in> set errs)"
proof -
  have nbf: "NewNumericDate 1500000000 = 1000000000"
    by (simp add: NewNumericDate_def Truncate_def TimePrecision_def Second_def)
  have ex: "NewNumericDate 86401500000000 = 86401000000000"
    by (simp add: NewNumericDate_def Truncate_def TimePrecision_def Second_def)
  have h: "1500000000 + 24 * Hour = 86401500000000"
    by (simp add: Hour_def Second_def)
  have valid: "ValidString ''u1''" "ValidString ''pat@example.org''"
    "list_all ValidString [''practitioner'']"
    by (simp_all add: ValidString_examples)
  obtain tok where
    gen: "exampleIssued = Inr (tok, 86401500000000)" and
    all: "\<forall>now'.
        (1000000000 \<le> now' \<and> now' < 86401000000000 \<longrightarrow>
           (\<exists>c. ValidateToken constHmac exampleManager tok now' = Inr c \<and>
                UserID c = jsonString ''u1'' \<and> Email c = jsonString ''pat@example.org'' \<and>
                Roles c = map jsonString [''practitioner''] \<and>
                (ValidString ''u1'' \<longrightarrow> UserID c = ''u1'') \<and>
                (ValidString ''pat@example.org'' \<longrightarrow> Email c = ''pat@example.org'') \<and>
                (list_all ValidString [''practitioner''] \<longrightarrow> Roles c = [''practitioner'']))) \<and>
        (86401000000000 \<le> now' \<longrightarrow>
           (\<exists>errs. ValidateToken constHmac exampleManager tok now'
                     = Inl (ErrTokenInvalidClaims errs) \<and> ErrTokenExpired \<in> set errs)) \<and>
        (now' < 1000000000 \<longrightarrow>
           (\<exists>errs. ValidateToken constHmac exampleManager tok now'
                     = Inl (ErrTokenInvalidClaims errs) \<and> ErrTokenNotValidYet \<in> set errs))"
    using GenerateToken_ValidateToken_window
      [of constHmac exampleManager 1500000000 1500000000 1500000000
          "''u1''" "''pat@example.org''" "[''practitioner'']"]
    unfolding h nbf ex exampleIssued_def by (elim exE conjE)
  from all [rule_format, of 2000000000] all [rule_format, of 86401000000000]
       all [rule_format, of 500000000] valid
  have "(\<exists>c. ValidateToken constHmac exampleManager tok 2000000000 = Inr c \<and>
          UserID c = ''u1'' \<and> Email c = ''pat@example.org'' \<and> Roles c = [''practitioner''])"
   and "(\<exists>errs. ValidateToken constHmac exampleManager tok 86401000000000
               = Inl (ErrTokenInvalidClaims errs) \<and> ErrTokenExpired \<in> set errs)"
   and "(\<exists>errs. ValidateToken constHmac exampleManager tok 500000000
               = Inl (ErrTokenInvalidClaims errs) \<and> ErrTokenNotValidYet \<in> set errs)"
    by auto
  with gen show ?thesis by blast
qed

text \<open>
  C1 as stated fails, in two ways. The example token is issued at \<open>now\<close> = 1.5 s and the
  caller is told that it expires at \<open>now + 24h\<close> = 86401.5 s, but validation at
  \<open>now'\<close> = 86401.2 s, inside \<open>now \<le> now' < now + 24h\<close>, already fails with
  \<^verbatim>\<open>ErrTokenExpired\<close>. And the token issued for the id \<open>u\<close> followed by the byte FF and the
  role \<open>nurse\<close> followed by the byte C3 validates, inside its window, to another id and
  another role: each invalid byte has become U+FFFD.
\<close>

theorem GenerateToken_expiry_truncated_counterexample:
  "\<not> isl exampleIssued \<and>
   snd (projr exampleIssued) = 1500000000 + 24 * Hour \<and>
   (1500000000 :: time) \<le> 86401200000000 \<and>
   (86401200000000 :: time) < 1500000000 + 24 * Hour \<and>
   ValidateToken constHmac exampleManager (fst (projr exampleIssued)) 86401200000000
     = Inl (ErrTokenInvalidClaims [ErrTokenExpired]) \<and>
   \<not> isl exampleInvalidIssued \<and>
   ValidateToken constHmac exampleManager (fst (projr exampleInvalidIssued)) 2000000000
     = Inr \<lparr>UserID = ''u'' @ [CHR 0xEF, CHR 0xBF, CHR 0xBD], Email = ''pat@example.org'',
            Roles = [''nurse'' @ [CHR 0xEF, CHR 0xBF, CHR 0xBD]],
            ExpiresAt = Some 86401000000000, IssuedAt = Some 1000000000,
            NotBefore = Some 1000000000, Issuer = ''HealthHub API'',
            Subject = ''u'' @ [CHR 0xEF, CHR 0xBF, CHR 0xBD]\<rparr> \<and>
   ''u'' @ [CHR 0xEF, CHR 0xBF, CHR 0xBD] \<noteq> ''u'' @ [CHR 0xFF] \<and>
   [''nurse'' @ [CHR 0xEF, CHR 0xBF, CHR 0xBD]] \<noteq> [''nurse'' @ [CHR 0xC3]]"
  by (simp add: exampleIssued_eq exampleInvalidIssued_eq ValidateToken_def ParseWithClaims_def
      keyFunc_def exampleManager_def NewTokenManager_def constHmac_def Validate_def
      verifyExpiresAt_def verifyNotBefore_def Hour_def Second_def)

section \<open>Properties of the authorization gate\<close>

lemma AuthMiddleware_Bearer:
  assumes "GetHeader c ''Authorization'' = ''Bearer '' @ s"
  shows "AuthMiddleware H decode tm now c =
     (case ValidateToken H tm (decode s) now of
        Inl err \<Rightarrow>
          Abort StatusUnauthorized
            [(''error'', AnyString ''Invalid or expired token''),
             (''code'', AnyString ''INVALID_TOKEN'')]
      | Inr claims \<Rightarrow>
          Next (Set (Set (Set (Set c
            ''user_id'' (AnyString (UserID claims)))
            ''user_email'' (AnyString (Email claims)))
            ''user_roles'' (AnyStrings (Roles claims)))
            ''claims'' (AnyClaims claims)))"
proof -
  have "''Bearer '' @ s \<noteq> s"
    by simp
  then show ?thesis
    using assms by (simp add: AuthMiddleware_def Let_def TrimPrefix_def)
qed

lemma AuthMiddleware_Next:
  assumes "AuthMiddleware H decode tm now c0 = Next c"
  shows "\<exists>claims.
           ValidateToken H tm (decode (TrimPrefix (GetHeader c0 ''Authorization'') ''Bearer '')) now
             = Inr claims \<and>
           Get c ''claims'' = Some (AnyClaims claims) \<and>
           Get c ''user_id'' = Some (AnyString (UserID claims)) \<and>
           Get c ''user_email'' = Some (AnyString (Email claims)) \<and>
           Get c ''user_roles'' = Some (AnyStrings (Roles claims))"
  using assms
  by (auto simp: AuthMiddleware_def Let_def Get_def Set_def split: if_splits sum.splits)

lemma hasRoleLoop_iff: "hasRoleLoop rs role \<longleftrightarrow> role \<in> set rs"
  by (induction rs) auto

lemma HasAnyRole_iff: "HasAnyRole c rs \<longleftrightarrow> (\<exists>r\<in>set rs. r \<in> set (Roles c))"
  by (induction rs) (auto simp: HasRole_def hasRoleLoop_iff)

lemma checkPermission_unlisted:
  "\<forall>r\<in>set userRoles. r \<notin> {''admin'', ''practitioner'', ''nurse'', ''lab-tech''} \<Longrightarrow>
   \<not> checkPermission userRoles resource action"
  by (induction userRoles) (auto simp: permissionTable_def)

lemma examplePatientIssued_eq:
  "examplePatientIssued =
     Inr (Compact (Some SigningMethodHS256)
            \<lparr>UserID = ''u2'', Email = ''sam@example.org'', Roles = [''patient''],
             ExpiresAt = Some 86401000000000, IssuedAt = Some 1000000000,
             NotBefore = Some 1000000000, Issuer = ''HealthHub API'', Subject = ''u2''\<rparr>
            ''mac'',
          86401500000000)"
  by (simp add: examplePatientIssued_def exampleManager_def NewTokenManager_def GenerateToken_eq
      jsonString_examples constHmac_def NewNumericDate_def Truncate_def TimePrecision_def Hour_def Second_def)

lemma bearerRequest_header: "GetHeader (bearerRequest s) ''Authorization'' = ''Bearer '' @ s"
  by (simp add: bearerRequest_def GetHeader_def)

lemma ValidateToken_example:
  "ValidateToken constHmac exampleManager (exampleDecode ''practitioner-token'') now =
     (if now < 1000000000 then Inl (ErrTokenInvalidClaims [ErrTokenNotValidYet])
      else if now < 86401000000000 then
        Inr \<lparr>UserID = ''u1'', Email = ''pat@example.org'', Roles = [''practitioner''],
             ExpiresAt = Some 86401000000000, IssuedAt = Some 1000000000,
             NotBefore = Some 1000000000, Issuer = ''HealthHub API'', Subject = ''u1''\<rparr>
      else Inl (ErrTokenInvalidClaims [ErrTokenExpired]))"
  by (simp add: exampleDecode_def exampleIssued_eq ValidateToken_def ParseWithClaims_def
      keyFunc_def exampleManager_def NewTokenManager_def constHmac_def Validate_def
      verifyExpiresAt_def verifyNotBefore_def)

lemma ValidateToken_examplePatient:
  "ValidateToken constHmac exampleManager (exampleDecode ''patient-token'') 2000000000 =
        Inr \<lparr>UserID = ''u2'', Email = ''sam@example.org'', Roles = [''patient''],
             ExpiresAt = Some 86401000000000, IssuedAt = Some 1000000000,
             NotBefore = Some 1000000000, Issuer = ''HealthHub API'', Subject = ''u2''\<rparr>"
  by (simp add: exampleDecode_def examplePatientIssued_eq ValidateToken_def ParseWithClaims_def
      keyFunc_def exampleManager_def NewTokenManager_def constHmac_def Validate_def
      verifyExpiresAt_def verifyNotBefore_def)

lemma ValidateToken_garbage:
  "ValidateToken constHmac exampleManager (exampleDecode ''garbage'') now = Inl ErrTokenMalformed"
  by (simp add: exampleDecode_def ValidateToken_def ParseWithClaims_def)

text \<open>
  C3. Two requests that carry bearer tokens failing validation, for whatever reasons
  \<open>err1\<close> and \<open>err2\<close>, get the same answer from \<^verbatim>\<open>AuthMiddleware\<close>: status 401 with the
  fixed body \<^verbatim>\<open>INVALID_TOKEN\<close>, which does not depend on the error.
\<close>

theorem AuthMiddleware_token_failure_uniform:
  assumes "GetHeader c1 ''Authorization'' = ''Bearer '' @ s1"
      and "GetHeader c2 ''Authorization'' = ''Bearer '' @ s2"
      and "ValidateToken H tm (decode s1) now1 = Inl err1"
      and "ValidateToken H tm (decode s2) now2 = Inl err2"
  shows "AuthMiddleware H decode tm now1 c1 = AuthMiddleware H decode tm now2 c2 \<and>
         AuthMiddleware H decode tm now1 c1 =
           Abort StatusUnauthorized
             [(''error'', AnyString ''Invalid or expired token''),
              (''code'', AnyString ''INVALID_TOKEN'')]"
  using assms by (simp add: AuthMiddleware_Bearer)

text \<open>
  The theorem at an expired token and at an undecodable one: two different errors, one
  answer.
\<close>

theorem AuthMiddleware_token_failure_uniform_witness:
  "ValidateToken constHmac exampleManager (exampleDecode ''practitioner-token'') 90000000000000
     = Inl (ErrTokenInvalidClaims [ErrTokenExpired]) \<and>
   ValidateToken constHmac exampleManager (exampleDecode ''garbage'') 90000000000000
     = Inl ErrTokenMalformed \<and>
   AuthMiddleware constHmac exampleDecode exampleManager 90000000000000
       (bearerRequest ''practitioner-token'') =
     AuthMiddleware constHmac exampleDecode exampleManager 90000000000000
       (bearerRequest ''garbage'')"
proof -
  have v1: "ValidateToken constHmac exampleManager (exampleDecode ''practitioner-token'')
              90000000000000 = Inl (ErrTokenInvalidClaims [ErrTokenExpired])"
    by (simp add: ValidateToken_example)
  have v2: "ValidateToken constHmac exampleManager (exampleDecode ''garbage'') 90000000000000
              = Inl ErrTokenMalformed"
    by (rule ValidateToken_garbage)
  from AuthMiddleware_token_failure_uniform
         [OF bearerRequest_header bearerRequest_header v1 v2] v1 v2
  show ?thesis by simp
qed

text \<open>
  C4. For a request that passed \<^verbatim>\<open>AuthMiddleware\<close>, with the claims of its validated
  token, \<^verbatim>\<open>RequireRole\<close> lets the request through exactly when the token's role list
  holds one of the allowed roles; otherwise it answers with status 403 (Forbidden) and the
  body \<^verbatim>\<open>INSUFFICIENT_PERMISSIONS\<close>. Whenever it aborts, the status is 403 and not 401.
\<close>

theorem RequireRole_authorizes_iff:
  assumes "AuthMiddleware H decode tm now c0 = Next c"
  shows "\<exists>claims.
           ValidateToken H tm (decode (TrimPrefix (GetHeader c0 ''Authorization'') ''Bearer '')) now
             = Inr claims \<and>
           (RequireRole allowedRoles c = Next c \<longleftrightarrow>
              (\<exists>r\<in>set allowedRoles. r \<in> set (Roles claims))) \<and>
           (\<not> (\<exists>r\<in>set allowedRoles. r \<in> set (Roles claims)) \<longrightarrow>
              RequireRole allowedRoles c =
                Abort StatusForbidden
                  [(''error'', AnyString ''Insufficient permissions''),
                   (''code'', AnyString ''INSUFFICIENT_PERMISSIONS''),
                   (''required_roles'', AnyStrings allowedRoles),
                   (''user_roles'', AnyStrings (Roles claims))]) \<and>
           (\<forall>status body. RequireRole allowedRoles c = Abort status body \<longrightarrow>
              status = StatusForbidden \<and> status \<noteq> StatusUnauthorized)"
proof -
  from AuthMiddleware_Next [OF assms] obtain claims where
    v: "ValidateToken H tm (decode (TrimPrefix (GetHeader c0 ''Authorization'') ''Bearer '')) now
          = Inr claims" and
    g: "Get c ''claims'' = Some (AnyClaims claims)"
    by blast
  have "RequireRole allowedRoles c =
          (if \<not> HasAnyRole claims allowedRoles then
             Abort StatusForbidden
               [(''error'', AnyString ''Insufficient permissions''),
                (''code'', AnyString ''INSUFFICIENT_PERMISSIONS''),
                (''required_roles'', AnyStrings allowedRoles),
                (''user_roles'', AnyStrings (Roles claims))]
           else Next c)"
    using g by (simp add: RequireRole_def)
  with v show ?thesis
    by (auto simp: HasAnyRole_iff StatusForbidden_def StatusUnauthorized_def)
qed

text \<open>
  The theorem at the token with roles \<^verbatim>\<open>["practitioner"]\<close>: it passes the guard for
  practitioner or admin and is answered 403 by the guard for admin alone.
\<close>

theorem RequireRole_authorizes_iff_witness:
  "\<exists>c. AuthMiddleware constHmac exampleDecode exampleManager 2000000000
          (bearerRequest ''practitioner-token'') = Next c \<and>
        RequireRole [''practitioner'', ''admin''] c = Next c \<and>
        RequireRole [''admin''] c =
          Abort StatusForbidden
            [(''error'', AnyString ''Insufficient permissions''),
             (''code'', AnyString ''INSUFFICIENT_PERMISSIONS''),
             (''required_roles'', AnyStrings [''admin'']),
             (''user_roles'', AnyStrings [''practitioner''])]"
proof -
  have v: "ValidateToken constHmac exampleManager
             (exampleDecode (TrimPrefix (GetHeader (bearerRequest ''practitioner-token'')
                ''Authorization'') ''Bearer '')) 2000000000 =
           Inr \<lparr>UserID = ''u1'', Email = ''pat@example.org'', Roles = [''practitioner''],
             ExpiresAt = Some 86401000000000, IssuedAt = Some 1000000000,
             NotBefore = Some 1000000000, Issuer = ''HealthHub API'', Subject = ''u1''\<rparr>"
    by (simp add: bearerRequest_header TrimPrefix_def ValidateToken_example)
  obtain c where
    m: "AuthMiddleware constHmac exampleDecode exampleManager 2000000000
          (bearerRequest ''practitioner-token'') = Next c"
    by (simp add: AuthMiddleware_Bearer [OF bearerRequest_header] ValidateToken_example)
  from RequireRole_authorizes_iff [OF m, of "[''practitioner'', ''admin'']"] v
  have a: "RequireRole [''practitioner'', ''admin''] c = Next c"
    by auto
  from RequireRole_authorizes_iff [OF m, of "[''admin'']"] v
  have b: "RequireRole [''admin''] c =
          Abort StatusForbidden
            [(''error'', AnyString ''Insufficient permissions''),
             (''code'', AnyString ''INSUFFICIENT_PERMISSIONS''),
             (''required_roles'', AnyStrings [''admin'']),
             (''user_roles'', AnyStrings [''practitioner''])]"
    by auto
  from m a b show ?thesis by blast
qed

text \<open>
  C10. \<^verbatim>\<open>checkPermission\<close> is false for every role list that holds none of the four roles
  of its table, whatever the resource and the action; so \<^verbatim>\<open>RequirePermission\<close> answers every
  authenticated request whose token has only such roles with status 403.
\<close>

theorem checkPermission_denies_unlisted_roles:
  "((\<forall>r\<in>set userRoles. r \<notin> {''admin'', ''practitioner'', ''nurse'', ''lab-tech''}) \<longrightarrow>
      \<not> checkPermission userRoles resource action) \<and>
   (\<forall>claims. AuthMiddleware H decode tm now c0 = Next c \<and>
        ValidateToken H tm (decode (TrimPrefix (GetHeader c0 ''Authorization'') ''Bearer '')) now
          = Inr claims \<and>
        (\<forall>r\<in>set (Roles claims). r \<notin> {''admin'', ''practitioner'', ''nurse'', ''lab-tech''}) \<longrightarrow>
      RequirePermission resource action c =
        Abort StatusForbidden
          [(''error'', AnyString ''Insufficient permissions''),
           (''code'', AnyString ''INSUFFICIENT_PERMISSIONS''),
           (''resource'', AnyString resource),
           (''action'', AnyString action),
           (''user_id'', AnyString (UserID claims))])"
proof (intro conjI allI impI)
  assume "\<forall>r\<in>set userRoles. r \<notin> {''admin'', ''practitioner'', ''nurse'', ''lab-tech''}"
  then show "\<not> checkPermission userRoles resource action"
    by (rule checkPermission_unlisted)
next
  fix claims
  assume a: "AuthMiddleware H decode tm now c0 = Next c \<and>
        ValidateToken H tm (decode (TrimPrefix (GetHeader c0 ''Authorization'') ''Bearer '')) now
          = Inr claims \<and>
        (\<forall>r\<in>set (Roles claims). r \<notin> {''admin'', ''practitioner'', ''nurse'', ''lab-tech''})"
  from AuthMiddleware_Next [of H decode tm now c0 c] a
  have g: "Get c ''claims'' = Some (AnyClaims claims)"
    and u: "Get c ''user_id'' = Some (AnyString (UserID claims))"
    by auto
  from a have "\<not> checkPermission (Roles claims) resource action"
    by (intro checkPermission_unlisted) simp
  then show "RequirePermission resource action c =
        Abort StatusForbidden
          [(''error'', AnyString ''Insufficient permissions''),
           (''code'', AnyString ''INSUFFICIENT_PERMISSIONS''),
           (''resource'', AnyString resource),
           (''action'', AnyString action),
           (''user_id'', AnyString (UserID claims))]"
    using g u by (simp add: RequirePermission_def)
qed

text \<open>
  The theorem at the token with roles \<^verbatim>\<open>["patient"]\<close>, asking to read patients.
\<close>

theorem checkPermission_denies_unlisted_roles_witness:
  "\<exists>c. AuthMiddleware constHmac exampleDecode exampleManager 2000000000
          (bearerRequest ''patient-token'') = Next c \<and>
        \<not> checkPermission [''patient''] ''patients'' ''read'' \<and>
        RequirePermission ''patients'' ''read'' c =
          Abort StatusForbidden
            [(''error'', AnyString ''Insufficient permissions''),
             (''code'', AnyString ''INSUFFICIENT_PERMISSIONS''),
             (''resource'', AnyString ''patients''),
             (''action'', AnyString ''read''),
             (''user_id'', AnyString ''u2'')]"
proof -
  have v: "ValidateToken constHmac exampleManager
             (exampleDecode (TrimPrefix (GetHeader (bearerRequest ''patient-token'')
                ''Authorization'') ''Bearer '')) 2000000000 =
           Inr \<lparr>UserID = ''u2'', Email = ''sam@example.org'', Roles = [''patient''],
             ExpiresAt = Some 86401000000000, IssuedAt = Some 1000000000,
             NotBefore = Some 1000000000, Issuer = ''HealthHub API'', Subject = ''u2''\<rparr>"
    by (simp add: bearerRequest_header TrimPrefix_def ValidateToken_examplePatient)
  obtain c where
    m: "AuthMiddleware constHmac exampleDecode exampleManager 2000000000
          (bearerRequest ''patient-token'') = Next c"
    by (simp add: AuthMiddleware_Bearer [OF bearerRequest_header] ValidateToken_examplePatient)
  from checkPermission_denies_unlisted_roles
         [of "[''patient'']" "''patients''" "''read''" constHmac exampleDecode exampleManager
             2000000000 "bearerRequest ''patient-token''" c] m v
  show ?thesis by auto
qed

section \<open>Properties of token refresh\<close>

lemma RefreshToken_valid:
  "ValidateToken H tm tok now0 = Inr claims \<Longrightarrow>
   RefreshToken H tm tok now0 now1 now2 now3 =
     GenerateToken H tm now1 now2 now3 (UserID claims) (Email claims) (Roles claims)"
  by (simp add: RefreshToken_def)

lemma firstWhere_noFault:
  "firstWhere None cond rows =
     (case filter cond rows of [] \<Rightarrow> Inl ErrRecordNotFound | r # _ \<Rightarrow> Inr r)"
  by (simp add: firstWhere_def)

lemma loadRoles_fields:
  "User_ID (loadRoles rank db u) = User_ID u"
  "User_Email (loadRoles rank db u) = User_Email u"
  "User_FirstName (loadRoles rank db u) = User_FirstName u"
  "User_LastName (loadRoles rank db u) = User_LastName u"
  "User_Active (loadRoles rank db u) = User_Active u"
  by (simp_all add: loadRoles_def)

lemma GetRoleNames_loadRoles:
  "set (GetRoleNames (loadRoles rank db u)) =
     Role_Name ` {r \<in> set (t_roles db).
                   (User_ID u, Role_ID r) \<in> set (map userRoleKey (t_user_roles db))}"
  by (simp add: GetRoleNames_def loadRoles_def)

lemma GetClaims_exampleContext: "GetClaims exampleContext = Some exampleClaims"
  by (simp add: GetClaims_def Get_def exampleContext_def Set_def)

lemma exampleDB_active_user:
  "filter (\<lambda>u. User_ID u = UserID exampleClaims \<and> User_Active u = True) (t_users exampleDB) =
     \<lparr>User_ID = ''u1'', User_Email = ''pat@example.org'', User_Password = ''$2a$10$hash'',
      User_FirstName = ''Pat'', User_LastName = ''Lee'', User_Roles = [],
      User_Active = True\<rparr> # []"
  by (simp add: exampleDB_def exampleClaims_def)

lemma exampleDB_live_roles:
  "Role_Name ` {r \<in> set (t_roles exampleDB).
                 (UserID exampleClaims, Role_ID r) \<in> set (map userRoleKey (t_user_roles exampleDB))}
     = {''admin''}"
proof -
  have "{r \<in> set (t_roles exampleDB).
          (UserID exampleClaims, Role_ID r) \<in> set (map userRoleKey (t_user_roles exampleDB))}
        = set (filter (\<lambda>r. (UserID exampleClaims, Role_ID r)
                            \<in> set (map userRoleKey (t_user_roles exampleDB)))
                 (t_roles exampleDB))"
    by simp
  also have "\<dots> = {\<lparr>Role_ID = ''r-admin'', Role_Name = ''admin'',
                      Role_Description = ''Default admin role'', Role_Permissions = []\<rparr>}"
    by (simp add: exampleDB_def exampleClaims_def userRoleKey_def)
  finally show ?thesis by simp
qed

lemma ValidateToken_exampleClaims:
  "ValidateToken constHmac exampleManager (exampleDecode ''practitioner-token'') 2000000000
     = Inr exampleClaims"
  by (simp add: ValidateToken_example exampleClaims_def)

text \<open>
  C2, as the code has it. \<^verbatim>\<open>TokenManager.RefreshToken\<close> is validation followed by
  \<^verbatim>\<open>GenerateToken\<close> on the user id, email and roles embedded in the old token, so the new
  token validates to the old user id, email and role list (as JSON carries them: the same
  strings when they are valid UTF-8), and it fails with the validation error of an invalid
  token. The refresh endpoint of the server does not call it: \<^verbatim>\<open>AuthHandler.RefreshToken\<close>
  looks the identity of the claims up among the active users and issues the new token for
  the stored email and for the names of the roles that the identity holds in the database
  now, in the order in which the database returns them: the roles of the new token are, as
  a set, the names of the role rows that the assignment table links to the identity. For an
  identity that is inactive or gone it answers 401 \<^verbatim>\<open>USER_INACTIVE\<close>.
\<close>

theorem RefreshToken_snapshot_handler_live:
  "(\<forall>claims. ValidateToken H tm tok now0 = Inr claims \<longrightarrow>
      (\<exists>tok2. RefreshToken H tm tok now0 now1 now2 now3 = Inr (tok2, now1 + 24 * Hour) \<and>
         GenerateToken H tm now1 now2 now3 (UserID claims) (Email claims) (Roles claims)
           = Inr (tok2, now1 + 24 * Hour) \<and>
         (\<forall>now'. NewNumericDate now3 \<le> now' \<and> now' < NewNumericDate (now1 + 24 * Hour) \<longrightarrow>
            (\<exists>c2. ValidateToken H tm tok2 now' = Inr c2 \<and>
                  UserID c2 = jsonString (UserID claims) \<and>
                  Email c2 = jsonString (Email claims) \<and>
                  Roles c2 = map jsonString (Roles claims) \<and>
                  (ValidString (UserID claims) \<longrightarrow> UserID c2 = UserID claims) \<and>
                  (ValidString (Email claims) \<longrightarrow> Email c2 = Email claims) \<and>
                  (list_all ValidString (Roles claims) \<longrightarrow> Roles c2 = Roles claims))))) \<and>
   (\<forall>err. ValidateToken H tm tok now0 = Inl err \<longrightarrow>
      RefreshToken H tm tok now0 now1 now2 now3 = Inl err) \<and>
   (\<forall>claims row others.
      GetClaims c = Some claims \<and> fault cn (Stmt 0) = None \<and>
      filter (\<lambda>u. User_ID u = UserID claims \<and> User_Active u = True) (t_users db) = row # others \<longrightarrow>
      (\<exists>tok2 names.
         AuthHandler_RefreshToken H cn rank tm db now1 now2 now3 c =
           (StatusOK,
            AuthBody \<lparr>AuthResponse_Token = tok2, AuthResponse_ExpiresAt = now1 + 24 * Hour,
                      AuthResponse_User =
                        \<lparr>UserInfo_ID = User_ID row, UserInfo_Email = User_Email row,
                         UserInfo_FirstName = User_FirstName row,
                         UserInfo_LastName = User_LastName row,
                         UserInfo_Roles = names,
                         UserInfo_Active = True\<rparr>\<rparr>) \<and>
         set names =
           Role_Name ` {r \<in> set (t_roles db).
                         (UserID claims, Role_ID r) \<in> set (map userRoleKey (t_user_roles db))} \<and>
         GenerateToken H tm now1 now2 now3 (User_ID row) (User_Email row) names
           = Inr (tok2, now1 + 24 * Hour) \<and>
         (\<forall>now'. NewNumericDate now3 \<le> now' \<and> now' < NewNumericDate (now1 + 24 * Hour) \<longrightarrow>
            (\<exists>c2. ValidateToken H tm tok2 now' = Inr c2 \<and>
                  UserID c2 = jsonString (UserID claims) \<and>
                  Email c2 = jsonString (User_Email row) \<and>
                  Roles c2 = map jsonString names \<and>
                  (list_all ValidString names \<longrightarrow>
                     set (Roles c2) =
                       Role_Name ` {r \<in> set (t_roles db).
                                     (UserID claims, Role_ID r)
                                       \<in> set (map userRoleKey (t_user_roles db))}))))) \<and>
   (\<forall>claims.
      GetClaims c = Some claims \<and> fault cn (Stmt 0) = None \<and>
      filter (\<lambda>u. User_ID u = UserID claims \<and> User_Active u = True) (t_users db) = [] \<longrightarrow>
      AuthHandler_RefreshToken H cn rank tm db now1 now2 now3 c =
        (StatusUnauthorized,
         ErrorBody \<lparr>ErrorResponse_Error = ''User not found or inactive'',
                    ErrorResponse_Message = None, ErrorResponse_Code = ''USER_INACTIVE''\<rparr>))"
proof (intro conjI allI impI)
  fix claims
  assume v: "ValidateToken H tm tok now0 = Inr claims"
  from GenerateToken_window
    [of H tm now1 now2 now3 "UserID claims" "Email claims" "Roles claims"]
  obtain tok2 where
    g: "GenerateToken H tm now1 now2 now3 (UserID claims) (Email claims) (Roles claims)
          = Inr (tok2, now1 + 24 * Hour)" and
    w: "\<forall>now'. NewNumericDate now3 \<le> now' \<and> now' < NewNumericDate (now1 + 24 * Hour) \<longrightarrow>
          (\<exists>c2. ValidateToken H tm tok2 now' = Inr c2 \<and> UserID c2 = jsonString (UserID claims) \<and>
                Email c2 = jsonString (Email claims) \<and> Roles c2 = map jsonString (Roles claims))"
    by blast
  have r: "RefreshToken H tm tok now0 now1 now2 now3 = Inr (tok2, now1 + 24 * Hour)"
    using g by (simp add: RefreshToken_valid [OF v])
  have w2: "\<forall>now'. NewNumericDate now3 \<le> now' \<and> now' < NewNumericDate (now1 + 24 * Hour) \<longrightarrow>
            (\<exists>c2. ValidateToken H tm tok2 now' = Inr c2 \<and>
                  UserID c2 = jsonString (UserID claims) \<and>
                  Email c2 = jsonString (Email claims) \<and>
                  Roles c2 = map jsonString (Roles claims) \<and>
                  (ValidString (UserID claims) \<longrightarrow> UserID c2 = UserID claims) \<and>
                  (ValidString (Email claims) \<longrightarrow> Email c2 = Email claims) \<and>
                  (list_all ValidString (Roles claims) \<longrightarrow> Roles c2 = Roles claims))"
  proof (intro allI impI)
    fix now'
    assume "NewNumericDate now3 \<le> now' \<and> now' < NewNumericDate (now1 + 24 * Hour)"
    with w obtain c2 where
      c2: "ValidateToken H tm tok2 now' = Inr c2" "UserID c2 = jsonString (UserID claims)"
        "Email c2 = jsonString (Email claims)" "Roles c2 = map jsonString (Roles claims)"
      by blast
    then show "\<exists>c2. ValidateToken H tm tok2 now' = Inr c2 \<and>
                  UserID c2 = jsonString (UserID claims) \<and>
                  Email c2 = jsonString (Email claims) \<and>
                  Roles c2 = map jsonString (Roles claims) \<and>
                  (ValidString (UserID claims) \<longrightarrow> UserID c2 = UserID claims) \<and>
                  (ValidString (Email claims) \<longrightarrow> Email c2 = Email claims) \<and>
                  (list_all ValidString (Roles claims) \<longrightarrow> Roles c2 = Roles claims)"
      by (simp add: jsonString_valid map_jsonString_valid)
  qed
  show "\<exists>tok2. RefreshToken H tm tok now0 now1 now2 now3 = Inr (tok2, now1 + 24 * Hour) \<and>
         GenerateToken H tm now1 now2 now3 (UserID claims) (Email claims) (Roles claims)
           = Inr (tok2, now1 + 24 * Hour) \<and>
         (\<forall>now'. NewNumericDate now3 \<le> now' \<and> now' < NewNumericDate (now1 + 24 * Hour) \<longrightarrow>
            (\<exists>c2. ValidateToken H tm tok2 now' = Inr c2 \<and>
                  UserID c2 = jsonString (UserID claims) \<and>
                  Email c2 = jsonString (Email claims) \<and>
                  Roles c2 = map jsonString (Roles claims) \<and>
                  (ValidString (UserID claims) \<longrightarrow> UserID c2 = UserID claims) \<and>
                  (ValidString (Email claims) \<longrightarrow> Email c2 = Email claims) \<and>
                  (list_all ValidString (Roles claims) \<longrightarrow> Roles c2 = Roles claims)))"
    by (intro exI [of _ tok2] conjI r g w2)
next
  fix err
  assume "ValidateToken H tm tok now0 = Inl err"
  then show "RefreshToken H tm tok now0 now1 now2 now3 = Inl err"
    by (simp add: RefreshToken_def)
next
  fix claims row others
  assume a: "GetClaims c = Some claims \<and> fault cn (Stmt 0) = None \<and>
      filter (\<lambda>u. User_ID u = UserID claims \<and> User_Active u = True) (t_users db) = row # others"
  then have "row \<in> set (filter (\<lambda>u. User_ID u = UserID claims \<and> User_Active u = True) (t_users db))"
    by simp
  then have row: "User_ID row = UserID claims" "User_Active row = True"
    by auto
  let ?names = "GetRoleNames (loadRoles rank db row)"
  let ?live = "Role_Name ` {r \<in> set (t_roles db).
                 (UserID claims, Role_ID r) \<in> set (map userRoleKey (t_user_roles db))}"
  have names: "set ?names = ?live"
    using GetRoleNames_loadRoles [of rank db row] by (simp add: row)
  from GenerateToken_window
    [of H tm now1 now2 now3 "User_ID row" "User_Email row" ?names]
  obtain tok2 where
    g: "GenerateToken H tm now1 now2 now3 (User_ID row) (User_Email row) ?names
          = Inr (tok2, now1 + 24 * Hour)" and
    w: "\<forall>now'. NewNumericDate now3 \<le> now' \<and> now' < NewNumericDate (now1 + 24 * Hour) \<longrightarrow>
          (\<exists>c2. ValidateToken H tm tok2 now' = Inr c2 \<and> UserID c2 = jsonString (User_ID row) \<and>
                Email c2 = jsonString (User_Email row) \<and> Roles c2 = map jsonString ?names)"
    by blast
  have w2: "\<forall>now'. NewNumericDate now3 \<le> now' \<and> now' < NewNumericDate (now1 + 24 * Hour) \<longrightarrow>
            (\<exists>c2. ValidateToken H tm tok2 now' = Inr c2 \<and>
                  UserID c2 = jsonString (UserID claims) \<and>
                  Email c2 = jsonString (User_Email row) \<and>
                  Roles c2 = map jsonString ?names \<and>
                  (list_all ValidString ?names \<longrightarrow> set (Roles c2) = ?live))"
  proof (intro allI impI)
    fix now'
    assume "NewNumericDate now3 \<le> now' \<and> now' < NewNumericDate (now1 + 24 * Hour)"
    with w obtain c2 where
      c2: "ValidateToken H tm tok2 now' = Inr c2" "UserID c2 = jsonString (User_ID row)"
        "Email c2 = jsonString (User_Email row)" "Roles c2 = map jsonString ?names"
      by blast
    have "list_all ValidString ?names \<longrightarrow> set (Roles c2) = ?live"
      using c2(4) names by (simp add: map_jsonString_valid)
    with c2 show "\<exists>c2. ValidateToken H tm tok2 now' = Inr c2 \<and>
                  UserID c2 = jsonString (UserID claims) \<and>
                  Email c2 = jsonString (User_Email row) \<and>
                  Roles c2 = map jsonString ?names \<and>
                  (list_all ValidString ?names \<longrightarrow> set (Roles c2) = ?live)"
      by (simp add: row(1))
  qed
  have h: "AuthHandler_RefreshToken H cn rank tm db now1 now2 now3 c =
           (StatusOK,
            AuthBody \<lparr>AuthResponse_Token = tok2, AuthResponse_ExpiresAt = now1 + 24 * Hour,
                      AuthResponse_User =
                        \<lparr>UserInfo_ID = User_ID row, UserInfo_Email = User_Email row,
                         UserInfo_FirstName = User_FirstName row,
                         UserInfo_LastName = User_LastName row,
                         UserInfo_Roles = ?names,
                         UserInfo_Active = True\<rparr>\<rparr>)"
    using a g row
    by (simp add: AuthHandler_RefreshToken_def firstWhere_noFault Let_def loadRoles_fields)
  show "\<exists>tok2 names.
         AuthHandler_RefreshToken H cn rank tm db now1 now2 now3 c =
           (StatusOK,
            AuthBody \<lparr>AuthResponse_Token = tok2, AuthResponse_ExpiresAt = now1 + 24 * Hour,
                      AuthResponse_User =
                        \<lparr>UserInfo_ID = User_ID row, UserInfo_Email = User_Email row,
                         UserInfo_FirstName = User_FirstName row,
                         UserInfo_LastName = User_LastName row,
                         UserInfo_Roles = names,
                         UserInfo_Active = True\<rparr>\<rparr>) \<and>
         set names = ?live \<and>
         GenerateToken H tm now1 now2 now3 (User_ID row) (User_Email row) names
           = Inr (tok2, now1 + 24 * Hour) \<and>
         (\<forall>now'. NewNumericDate now3 \<le> now' \<and> now' < NewNumericDate (now1 + 24 * Hour) \<longrightarrow>
            (\<exists>c2. ValidateToken H tm tok2 now' = Inr c2 \<and>
                  UserID c2 = jsonString (UserID claims) \<and>
                  Email c2 = jsonString (User_Email row) \<and>
                  Roles c2 = map jsonString names \<and>
                  (list_all ValidString names \<longrightarrow> set (Roles c2) = ?live)))"
    by (intro exI [of _ tok2] exI [of _ ?names] conjI h names g w2)
next
  fix claims
  assume "GetClaims c = Some claims \<and> fault cn (Stmt 0) = None \<and>
      filter (\<lambda>u. User_ID u = UserID claims \<and> User_Active u = True) (t_users db) = []"
  then show "AuthHandler_RefreshToken H cn rank tm db now1 now2 now3 c =
        (StatusUnauthorized,
         ErrorBody \<lparr>ErrorResponse_Error = ''User not found or inactive'',
                    ErrorResponse_Message = None, ErrorResponse_Code = ''USER_INACTIVE''\<rparr>)"
    by (simp add: AuthHandler_RefreshToken_def firstWhere_noFault)
qed

text \<open>
  The theorem at the example token (roles \<^verbatim>\<open>["practitioner"]\<close>) and the example database
  (the identity now holds admin): the token manager's refresh keeps practitioner, the
  endpoint issues admin.
\<close>

theorem RefreshToken_snapshot_handler_live_witness:
  "(\<exists>tok2 c2.
      RefreshToken constHmac exampleManager (exampleDecode ''practitioner-token'')
        2000000000 3000000000 3000000000 3000000000 = Inr (tok2, 3000000000 + 24 * Hour) \<and>
      ValidateToken constHmac exampleManager tok2 4000000000 = Inr c2 \<and>
      Roles c2 = [''practitioner'']) \<and>
   (\<exists>tok2 c2 info.
      AuthHandler_RefreshToken constHmac exampleConn exampleRank exampleManager exampleDB
        3000000000 3000000000 3000000000 exampleContext =
        (StatusOK, AuthBody \<lparr>AuthResponse_Token = tok2,
                              AuthResponse_ExpiresAt = 3000000000 + 24 * Hour,
                              AuthResponse_User = info\<rparr>) \<and>
      ValidateToken constHmac exampleManager tok2 4000000000 = Inr c2 \<and>
      set (Roles c2) = {''admin''})"
proof -
  have n3: "NewNumericDate 3000000000 = 3000000000"
    by (simp add: NewNumericDate_def Truncate_def TimePrecision_def Second_def)
  have e3: "NewNumericDate (3000000000 + 24 * Hour) = 86403000000000"
    by (simp add: NewNumericDate_def Truncate_def TimePrecision_def Hour_def Second_def)
  have f: "fault exampleConn (Stmt 0) = None"
    by (simp add: exampleConn_def noFault_def)
  have valid: "list_all ValidString (Roles exampleClaims)"
    by (simp add: exampleClaims_def ValidString_examples)
  note th = RefreshToken_snapshot_handler_live
    [where H = constHmac and tm = exampleManager and tok = "exampleDecode ''practitioner-token''"
       and ?now0.0 = 2000000000 and ?now1.0 = 3000000000 and ?now2.0 = 3000000000
       and ?now3.0 = 3000000000 and c = exampleContext and cn = exampleConn
       and rank = exampleRank and db = exampleDB]
  note p1 = th [THEN conjunct1, rule_format, OF ValidateToken_exampleClaims]
  from p1 obtain tok2 where
    r: "RefreshToken constHmac exampleManager (exampleDecode ''practitioner-token'')
          2000000000 3000000000 3000000000 3000000000 = Inr (tok2, 3000000000 + 24 * Hour)" and
    rw0: "\<forall>now'. NewNumericDate 3000000000 \<le> now' \<and>
           now' < NewNumericDate (3000000000 + 24 * Hour) \<longrightarrow>
            (\<exists>c2. ValidateToken constHmac exampleManager tok2 now' = Inr c2 \<and>
                  UserID c2 = jsonString (UserID exampleClaims) \<and>
                  Email c2 = jsonString (Email exampleClaims) \<and>
                  Roles c2 = map jsonString (Roles exampleClaims) \<and>
                  (ValidString (UserID exampleClaims) \<longrightarrow> UserID c2 = UserID exampleClaims) \<and>
                  (ValidString (Email exampleClaims) \<longrightarrow> Email c2 = Email exampleClaims) \<and>
                  (list_all ValidString (Roles exampleClaims) \<longrightarrow> Roles c2 = Roles exampleClaims))"
    by (elim exE conjE)
  have rw: "\<forall>now'. NewNumericDate 3000000000 \<le> now' \<and>
           now' < NewNumericDate (3000000000 + 24 * Hour) \<longrightarrow>
            (\<exists>c2. ValidateToken constHmac exampleManager tok2 now' = Inr c2 \<and>
                  (list_all ValidString (Roles exampleClaims) \<longrightarrow> Roles c2 = Roles exampleClaims))"
    using rw0 by blast
  from rw [rule_format, of 4000000000] valid obtain c2 where
    "ValidateToken constHmac exampleManager tok2 4000000000 = Inr c2"
    "Roles c2 = [''practitioner'']"
    unfolding n3 e3 by (auto simp: exampleClaims_def)
  with r have first: "\<exists>tok2 c2.
      RefreshToken constHmac exampleManager (exampleDecode ''practitioner-token'')
        2000000000 3000000000 3000000000 3000000000 = Inr (tok2, 3000000000 + 24 * Hour) \<and>
      ValidateToken constHmac exampleManager tok2 4000000000 = Inr c2 \<and>
      Roles c2 = [''practitioner'']"
    by blast
  note p3 = th [THEN conjunct2, THEN conjunct2, THEN conjunct1, rule_format,
      OF conjI [OF GetClaims_exampleContext conjI [OF f exampleDB_active_user]]]
  from p3 obtain tok3 names where
    h0: "AuthHandler_RefreshToken constHmac exampleConn exampleRank exampleManager exampleDB
          3000000000 3000000000 3000000000 exampleContext =
        (StatusOK, AuthBody \<lparr>AuthResponse_Token = tok3,
                              AuthResponse_ExpiresAt = 3000000000 + 24 * Hour,
                              AuthResponse_User =
                        \<lparr>UserInfo_ID = ''u1'', UserInfo_Email = ''pat@example.org'',
                         UserInfo_FirstName = ''Pat'', UserInfo_LastName = ''Lee'',
                         UserInfo_Roles = names, UserInfo_Active = True\<rparr>\<rparr>)" and
    sn: "set names =
           Role_Name ` {r \<in> set (t_roles exampleDB).
                         (UserID exampleClaims, Role_ID r)
                           \<in> set (map userRoleKey (t_user_roles exampleDB))}" and
    hw0: "\<forall>now'. NewNumericDate 3000000000 \<le> now' \<and>
           now' < NewNumericDate (3000000000 + 24 * Hour) \<longrightarrow>
            (\<exists>c2. ValidateToken constHmac exampleManager tok3 now' = Inr c2 \<and>
                  UserID c2 = jsonString (UserID exampleClaims) \<and>
                  Email c2 = jsonString ''pat@example.org'' \<and>
                  Roles c2 = map jsonString names \<and>
                  (list_all ValidString names \<longrightarrow>
                     set (Roles c2) =
                       Role_Name ` {r \<in> set (t_roles exampleDB).
                                     (UserID exampleClaims, Role_ID r)
                                       \<in> set (map userRoleKey (t_user_roles exampleDB))}))"
    unfolding User.simps by (elim exE conjE)
  obtain info where
    h: "AuthHandler_RefreshToken constHmac exampleConn exampleRank exampleManager exampleDB
          3000000000 3000000000 3000000000 exampleContext =
        (StatusOK, AuthBody \<lparr>AuthResponse_Token = tok3,
                              AuthResponse_ExpiresAt = 3000000000 + 24 * Hour,
                              AuthResponse_User = info\<rparr>)"
    using h0 by blast
  have hw: "\<forall>now'. NewNumericDate 3000000000 \<le> now' \<and>
           now' < NewNumericDate (3000000000 + 24 * Hour) \<longrightarrow>
            (\<exists>c2. ValidateToken constHmac exampleManager tok3 now' = Inr c2 \<and>
                  (list_all ValidString names \<longrightarrow>
                     set (Roles c2) =
                       Role_Name ` {r \<in> set (t_roles exampleDB).
                                     (UserID exampleClaims, Role_ID r)
                                       \<in> set (map userRoleKey (t_user_roles exampleDB))}))"
    using hw0 by blast
  have "set names = {''admin''}"
    using sn unfolding exampleDB_live_roles .
  then have "list_all ValidString names"
    by (auto simp: list_all_iff ValidString_def)
  with hw [rule_format, of 4000000000] obtain c3 where
    "ValidateToken constHmac exampleManager tok3 4000000000 = Inr c3"
    "set (Roles c3) = {''admin''}"
    unfolding n3 e3 exampleDB_live_roles by auto
  with h have "\<exists>tok2 c2 info.
      AuthHandler_RefreshToken constHmac exampleConn exampleRank exampleManager exampleDB
        3000000000 3000000000 3000000000 exampleContext =
        (StatusOK, AuthBody \<lparr>AuthResponse_Token = tok2,
                              AuthResponse_ExpiresAt = 3000000000 + 24 * Hour,
                              AuthResponse_User = info\<rparr>) \<and>
      ValidateToken constHmac exampleManager tok2 4000000000 = Inr c2 \<and>
      set (Roles c2) = {''admin''}"
    by blast
  with first show ?thesis by blast
qed

text \<open>
  C2 as stated fails for the refresh operation the system exposes: the request carries a
  valid token with the role snapshot \<^verbatim>\<open>["practitioner"]\<close>, and the endpoint answers with a
  token whose roles are \<^verbatim>\<open>["admin"]\<close>, the identity's current roles.
\<close>

theorem refresh_endpoint_reads_live_roles_counterexample:
  "AuthMiddleware constHmac exampleDecode exampleManager 2000000000
       (bearerRequest ''practitioner-token'') = Next exampleContext \<and>
   GetClaims exampleContext = Some exampleClaims \<and>
   Roles exampleClaims = [''practitioner''] \<and>
   AuthHandler_RefreshToken constHmac exampleConn exampleRank exampleManager exampleDB
       3000000000 3000000000 3000000000 exampleContext =
     (StatusOK,
      AuthBody \<lparr>AuthResponse_Token =
                  Compact (Some SigningMethodHS256)
                    \<lparr>UserID = ''u1'', Email = ''pat@example.org'', Roles = [''admin''],
                     ExpiresAt = Some 86403000000000, IssuedAt = Some 3000000000,
                     NotBefore = Some 3000000000, Issuer = ''HealthHub API'',
                     Subject = ''u1''\<rparr> ''mac'',
                AuthResponse_ExpiresAt = 86403000000000,
                AuthResponse_User =
                  \<lparr>UserInfo_ID = ''u1'', UserInfo_Email = ''pat@example.org'',
                   UserInfo_FirstName = ''Pat'', UserInfo_LastName = ''Lee'',
                   UserInfo_Roles = [''admin''], UserInfo_Active = True\<rparr>\<rparr>)"
proof -
  have m: "AuthMiddleware constHmac exampleDecode exampleManager 2000000000
       (bearerRequest ''practitioner-token'') = Next exampleContext"
    by (simp add: AuthMiddleware_Bearer [OF bearerRequest_header] ValidateToken_example
        exampleContext_def exampleClaims_def)
  have h: "AuthHandler_RefreshToken constHmac exampleConn exampleRank exampleManager exampleDB
       3000000000 3000000000 3000000000 exampleContext =
     (StatusOK,
      AuthBody \<lparr>AuthResponse_Token =
                  Compact (Some SigningMethodHS256)
                    \<lparr>UserID = ''u1'', Email = ''pat@example.org'', Roles = [''admin''],
                     ExpiresAt = Some 86403000000000, IssuedAt = Some 3000000000,
                     NotBefore = Some 3000000000, Issuer = ''HealthHub API'',
                     Subject = ''u1''\<rparr> ''mac'',
                AuthResponse_ExpiresAt = 86403000000000,
                AuthResponse_User =
                  \<lparr>UserInfo_ID = ''u1'', UserInfo_Email = ''pat@example.org'',
                   UserInfo_FirstName = ''Pat'', UserInfo_LastName = ''Lee'',
                   UserInfo_Roles = [''admin''], UserInfo_Active = True\<rparr>\<rparr>)"
    by (simp add: AuthHandler_RefreshToken_def GetClaims_exampleContext firstWhere_noFault
        exampleConn_def noFault_def exampleDB_active_user [simplified]
        Let_def loadRoles_def GetRoleNames_def GenerateToken_eq jsonString_examples
        exampleManager_def NewTokenManager_def constHmac_def NewNumericDate_def Truncate_def
        TimePrecision_def Hour_def Second_def userRoleKey_def exampleDB_def exampleClaims_def)
  from m h GetClaims_exampleContext show ?thesis
    by (simp add: exampleClaims_def)
qed

section \<open>Properties of the permission registry\<close>

lemma firstWhere_None_missing:
  "\<forall>r\<in>set rows. \<not> cond r \<Longrightarrow> firstWhere None cond rows = Inl ErrRecordNotFound"
  by (simp add: firstWhere_def filter_empty_conv [THEN iffD2])

lemma firstWhere_None_present:
  assumes "\<exists>r\<in>set rows. cond r"
  shows "\<exists>r. firstWhere None cond rows = Inr r"
proof -
  from assms have "filter cond rows \<noteq> []"
    by (simp add: filter_empty_conv)
  then show ?thesis
    by (cases "filter cond rows") (simp_all add: firstWhere_def)
qed

lemma deleteWhere_None:
  "deleteWhere None cond rows = Inr (filter (\<lambda>r. \<not> cond r) rows, length (filter cond rows))"
  by (simp add: deleteWhere_def)

lemma exampleConn_noFault: "fault exampleConn s = None"
  by (simp add: exampleConn_def noFault_def)

subsection \<open>CreateRole\<close>

lemma CreateRole_existing:
  assumes "fault cn (Stmt 0) = None" "name \<in> set (map Role_Name (t_roles db))"
  shows "CreateRole cn name description permissionIDs db = (Inl (RoleAlreadyExists name), db)"
proof -
  obtain r where "firstWhere None (\<lambda>r. Role_Name r = name) (t_roles db) = Inr r"
    using assms(2) firstWhere_None_present [of "t_roles db" "\<lambda>r. Role_Name r = name"] by auto
  then show ?thesis
    using assms(1) by (simp add: CreateRole_def)
qed

lemma appendPermissions_links:
  "appendPermissions None role perms db = Inr (role2, db2) \<Longrightarrow>
   Role_ID role2 = Role_ID role \<and> Role_Name role2 = Role_Name role \<and>
   Role_Description role2 = Role_Description role \<and>
   t_roles db2 = t_roles db \<and> t_users db2 = t_users db \<and> t_permissions db2 = t_permissions db \<and>
   t_user_roles db2 = t_user_roles db \<and>
   set (t_role_permissions db2) = set (t_role_permissions db) \<union>
     {\<lparr>RolePermission_RoleID = Role_ID role, RolePermission_PermissionID = Permission_ID p\<rparr> | p.
        p \<in> set perms}"
  by (auto simp: appendPermissions_def Let_def)

lemma CreateRole_new:
  assumes nf: "\<forall>k. fault cn (Stmt k) = None"
    and fresh: "name \<notin> set (map Role_Name (t_roles db))"
    and id: "uuid cn (Stmt 1) \<notin> set (map Role_ID (t_roles db))"
  shows "\<exists>role db2. CreateRole cn name description permissionIDs db = (Inr role, db2) \<and>
     Role_ID role = uuid cn (Stmt 1) \<and> Role_Name role = name \<and>
     Role_Description role = description \<and>
     t_roles db2 = t_roles db @
       [\<lparr>Role_ID = uuid cn (Stmt 1), Role_Name = name, Role_Description = description,
         Role_Permissions = []\<rparr>] \<and>
     set (t_role_permissions db2) = set (t_role_permissions db) \<union>
       {\<lparr>RolePermission_RoleID = uuid cn (Stmt 1), RolePermission_PermissionID = Permission_ID p\<rparr> | p.
          p \<in> set (t_permissions db) \<and> Permission_ID p \<in> set permissionIDs} \<and>
     t_users db2 = t_users db \<and> t_permissions db2 = t_permissions db \<and>
     t_user_roles db2 = t_user_roles db"
proof -
  let ?row = "\<lparr>Role_ID = uuid cn (Stmt 1), Role_Name = name, Role_Description = description,
               Role_Permissions = []\<rparr>"
  let ?db1 = "db\<lparr>t_roles := t_roles db @ [?row]\<rparr>"
  have look: "firstWhere (fault cn (Stmt 0)) (\<lambda>r. Role_Name r = name) (t_roles db) = Inl ErrRecordNotFound"
    using nf fresh by (auto intro!: firstWhere_None_missing)
  have create: "createRoleRow (fault cn (Stmt 1)) (uuid cn (Stmt 1))
      \<lparr>Role_ID = [], Role_Name = name, Role_Description = description, Role_Permissions = []\<rparr> db
      = Inr (?row, ?db1)"
    using nf fresh id by (simp add: createRoleRow_def Role_BeforeCreate_def Let_def)
  have reload: "firstWhere (fault cn (Stmt 4)) (\<lambda>r. Role_ID r = Role_ID role) (t_roles dbx) = Inr ?row"
    if t: "t_roles dbx = t_roles ?db1" and r: "Role_ID role = uuid cn (Stmt 1)"
    for dbx :: DB and role :: Role
  proof -
    have "filter (\<lambda>r. Role_ID r = uuid cn (Stmt 1)) (t_roles db) = []"
      using id by (force simp: filter_empty_conv image_iff)
    then show ?thesis
      using nf t r by (simp add: firstWhere_def)
  qed
  show ?thesis
  proof (cases "permissionIDs = []")
    case True
    then have "CreateRole cn name description permissionIDs db = (Inr (loadPermissions ?db1 ?row), ?db1)"
      using look create reload [of ?db1 ?row] by (simp add: CreateRole_def)
    then show ?thesis using True
      by (simp add: loadPermissions_def)
  next
    case False
    let ?perms = "filter (\<lambda>p. Permission_ID p \<in> set permissionIDs) (t_permissions db)"
    have find: "findWhere (fault cn (Stmt 2)) (\<lambda>p. Permission_ID p \<in> set permissionIDs)
        (t_permissions ?db1) = Inr ?perms"
      using nf by (simp add: findWhere_def)
    obtain role2 db2 where app: "appendPermissions (fault cn (Stmt 3)) ?row ?perms ?db1 = Inr (role2, db2)"
      using nf by (simp add: appendPermissions_def Let_def)
    then have app': "appendPermissions None ?row ?perms ?db1 = Inr (role2, db2)"
      using nf by simp
    note l = appendPermissions_links [OF app']
    have "CreateRole cn name description permissionIDs db = (Inr (loadPermissions db2 ?row), db2)"
      using look create find app False reload [of db2 role2] l
      by (simp add: CreateRole_def)
    moreover have "set (t_role_permissions db2) = set (t_role_permissions db) \<union>
       {\<lparr>RolePermission_RoleID = uuid cn (Stmt 1), RolePermission_PermissionID = Permission_ID p\<rparr> | p.
          p \<in> set (t_permissions db) \<and> Permission_ID p \<in> set permissionIDs}"
      using l by auto
    ultimately show ?thesis using l
      by (simp add: loadPermissions_def)
  qed
qed

text \<open>
  C5, as the code has it, on a connection without storage failures. A call whose name
  is already taken fails with the error "role with name ... already exists" and leaves the
  database as it was. A call with a new name succeeds whatever the permission ids are: it
  stores one role row, and it links the role to exactly the stored permissions whose id is
  in the list. An id that resolves to no stored permission is skipped without an error.
\<close>

theorem CreateRole_contract:
  assumes "\<forall>k. fault cn (Stmt k) = None"
  shows
    "(name \<in> set (map Role_Name (t_roles db)) \<longrightarrow>
        CreateRole cn name description permissionIDs db = (Inl (RoleAlreadyExists name), db)) \<and>
     (name \<notin> set (map Role_Name (t_roles db)) \<and>
      uuid cn (Stmt 1) \<notin> set (map Role_ID (t_roles db)) \<longrightarrow>
        (\<exists>role db2. CreateRole cn name description permissionIDs db = (Inr role, db2) \<and>
           Role_ID role = uuid cn (Stmt 1) \<and> Role_Name role = name \<and>
           Role_Description role = description \<and>
           t_roles db2 = t_roles db @
             [\<lparr>Role_ID = uuid cn (Stmt 1), Role_Name = name, Role_Description = description,
               Role_Permissions = []\<rparr>] \<and>
           set (t_role_permissions db2) = set (t_role_permissions db) \<union>
             {\<lparr>RolePermission_RoleID = uuid cn (Stmt 1),
               RolePermission_PermissionID = Permission_ID p\<rparr> | p.
                p \<in> set (t_permissions db) \<and> Permission_ID p \<in> set permissionIDs} \<and>
           t_users db2 = t_users db \<and> t_permissions db2 = t_permissions db \<and>
           t_user_roles db2 = t_user_roles db))"
proof (intro conjI impI)
  assume "name \<in> set (map Role_Name (t_roles db))"
  with assms show "CreateRole cn name description permissionIDs db = (Inl (RoleAlreadyExists name), db)"
    by (intro CreateRole_existing) simp_all
next
  assume "name \<notin> set (map Role_Name (t_roles db)) \<and>
      uuid cn (Stmt 1) \<notin> set (map Role_ID (t_roles db))"
  then have "name \<notin> set (map Role_Name (t_roles db))"
    and "uuid cn (Stmt 1) \<notin> set (map Role_ID (t_roles db))"
    by simp_all
  from CreateRole_new [OF assms this]
  show "\<exists>role db2. CreateRole cn name description permissionIDs db = (Inr role, db2) \<and>
           Role_ID role = uuid cn (Stmt 1) \<and> Role_Name role = name \<and>
           Role_Description role = description \<and>
           t_roles db2 = t_roles db @
             [\<lparr>Role_ID = uuid cn (Stmt 1), Role_Name = name, Role_Description = description,
               Role_Permissions = []\<rparr>] \<and>
           set (t_role_permissions db2) = set (t_role_permissions db) \<union>
             {\<lparr>RolePermission_RoleID = uuid cn (Stmt 1),
               RolePermission_PermissionID = Permission_ID p\<rparr> | p.
                p \<in> set (t_permissions db) \<and> Permission_ID p \<in> set permissionIDs} \<and>
           t_users db2 = t_users db \<and> t_permissions db2 = t_permissions db \<and>
           t_user_roles db2 = t_user_roles db" .
qed

text \<open>
  The theorem at the example database: the name admin is taken; the new role auditor,
  asked for with one stored and one unknown permission id, is created with the stored one.
\<close>

theorem CreateRole_contract_witness:
  "CreateRole exampleConn ''admin'' ''Second admin'' [''p-read''] exampleDB =
     (Inl (RoleAlreadyExists ''admin''), exampleDB) \<and>
   (\<exists>role db2.
      CreateRole exampleConn ''auditor'' ''Read only'' [''p-read'', ''p-none''] exampleDB
        = (Inr role, db2) \<and>
      Role_ID role = ''id-i'' \<and> Role_Name role = ''auditor'' \<and>
      set (t_role_permissions db2) =
        {\<lparr>RolePermission_RoleID = ''r-admin'', RolePermission_PermissionID = ''p-read''\<rparr>,
         \<lparr>RolePermission_RoleID = ''id-i'', RolePermission_PermissionID = ''p-read''\<rparr>})"
proof -
  have nf: "\<forall>k. fault exampleConn (Stmt k) = None"
    by (simp add: exampleConn_noFault)
  have names: "set (map Role_Name (t_roles exampleDB)) = {''admin'', ''practitioner''}"
    and ids: "set (map Role_ID (t_roles exampleDB)) = {''r-admin'', ''r-pract''}"
    and u: "uuid exampleConn (Stmt 1) = ''id-i''"
    and links: "set (t_role_permissions exampleDB) =
        {\<lparr>RolePermission_RoleID = ''r-admin'', RolePermission_PermissionID = ''p-read''\<rparr>}"
    and resolvable: "{\<lparr>RolePermission_RoleID = ''id-i'',
               RolePermission_PermissionID = Permission_ID p\<rparr> | p.
                p \<in> set (t_permissions exampleDB) \<and> Permission_ID p \<in> set [''p-read'', ''p-none'']}
        = {\<lparr>RolePermission_RoleID = ''id-i'', RolePermission_PermissionID = ''p-read''\<rparr>}"
    by (auto simp: exampleDB_def exampleConn_def exampleUuid_def)
  from CreateRole_contract [OF nf, of "''admin''" exampleDB "''Second admin''" "[''p-read'']"]
  have a: "CreateRole exampleConn ''admin'' ''Second admin'' [''p-read''] exampleDB =
     (Inl (RoleAlreadyExists ''admin''), exampleDB)"
    unfolding names by simp
  from CreateRole_contract [OF nf, of "''auditor''" exampleDB "''Read only''" "[''p-read'', ''p-none'']"]
  have "\<exists>role db2.
      CreateRole exampleConn ''auditor'' ''Read only'' [''p-read'', ''p-none''] exampleDB
        = (Inr role, db2) \<and>
      Role_ID role = ''id-i'' \<and> Role_Name role = ''auditor'' \<and>
      set (t_role_permissions db2) =
        {\<lparr>RolePermission_RoleID = ''r-admin'', RolePermission_PermissionID = ''p-read''\<rparr>,
         \<lparr>RolePermission_RoleID = ''id-i'', RolePermission_PermissionID = ''p-read''\<rparr>}"
    unfolding names ids u links resolvable by auto
  with a show ?thesis by simp
qed

text \<open>
  C5 as stated fails: the name auditor is new and the only permission id resolves to no
  stored permission, yet \<^verbatim>\<open>CreateRole\<close> returns the role and the role row is stored.
\<close>

theorem CreateRole_unresolvable_permission_counterexample:
  "''auditor'' \<notin> set (map Role_Name (t_roles exampleDB)) \<and>
   ''p-none'' \<notin> set (map Permission_ID (t_permissions exampleDB)) \<and>
   CreateRole exampleConn ''auditor'' ''Read only'' [''p-none''] exampleDB =
     (Inr \<lparr>Role_ID = ''id-i'', Role_Name = ''auditor'', Role_Description = ''Read only'',
           Role_Permissions = []\<rparr>,
      exampleDB\<lparr>t_roles := t_roles exampleDB @
        [\<lparr>Role_ID = ''id-i'', Role_Name = ''auditor'', Role_Description = ''Read only'',
          Role_Permissions = []\<rparr>]\<rparr>)"
  by (simp add: CreateRole_def firstWhere_def findWhere_def createRoleRow_def
      Role_BeforeCreate_def appendPermissions_def loadPermissions_def Let_def
      exampleConn_def noFault_def exampleUuid_def exampleDB_def)

text \<open>
  \<^verbatim>\<open>CreateRole\<close> opens no transaction: when the association statement fails, the role row
  written before it stays.
\<close>

lemma CreateRole_partial_write_example:
  "CreateRole (failingConn (Stmt 3)) ''auditor'' ''Read only'' [''p-read''] exampleDB =
     (Inl (FailedToAssociatePermissions (ErrStorage ''connection lost'')),
      exampleDB\<lparr>t_roles := t_roles exampleDB @
        [\<lparr>Role_ID = ''id-i'', Role_Name = ''auditor'', Role_Description = ''Read only'',
          Role_Permissions = []\<rparr>]\<rparr>)"
  by (simp add: CreateRole_def firstWhere_def findWhere_def createRoleRow_def
      Role_BeforeCreate_def appendPermissions_def loadPermissions_def Let_def
      failingConn_def failingAt_def exampleUuid_def exampleDB_def)

subsection \<open>AssignRoleToUser and RemoveRoleFromUser\<close>

lemma AssignRoleToUser_no_user:
  assumes "fault cn (Stmt 0) = None" "userID \<notin> set (map User_ID (t_users db))"
  shows "AssignRoleToUser cn now userID roleID grantedBy db =
           (Some (UserNotFound ErrRecordNotFound), db)"
proof -
  have "firstWhere None (\<lambda>u. User_ID u = userID) (t_users db) = Inl ErrRecordNotFound"
    using assms(2) by (intro firstWhere_None_missing) auto
  then show ?thesis
    using assms(1) by (simp add: AssignRoleToUser_def)
qed

lemma AssignRoleToUser_no_role:
  assumes "fault cn (Stmt 0) = None" "fault cn (Stmt 1) = None"
    "userID \<in> set (map User_ID (t_users db))" "roleID \<notin> set (map Role_ID (t_roles db))"
  shows "AssignRoleToUser cn now userID roleID grantedBy db =
           (Some (RoleNotFound ErrRecordNotFound), db)"
proof -
  obtain u where "firstWhere None (\<lambda>u. User_ID u = userID) (t_users db) = Inr u"
    using assms(3) firstWhere_None_present [of "t_users db" "\<lambda>u. User_ID u = userID"] by auto
  moreover have "firstWhere None (\<lambda>r. Role_ID r = roleID) (t_roles db) = Inl ErrRecordNotFound"
    using assms(4) by (intro firstWhere_None_missing) auto
  ultimately show ?thesis
    using assms(1,2) by (simp add: AssignRoleToUser_def)
qed

lemma AssignRoleToUser_duplicate:
  assumes "fault cn (Stmt 0) = None" "fault cn (Stmt 1) = None" "fault cn (Stmt 2) = None"
    "userID \<in> set (map User_ID (t_users db))" "roleID \<in> set (map Role_ID (t_roles db))"
    "(userID, roleID) \<in> set (map userRoleKey (t_user_roles db))"
  shows "AssignRoleToUser cn now userID roleID grantedBy db = (Some UserAlreadyHasRole, db)"
proof -
  obtain u where "firstWhere None (\<lambda>u. User_ID u = userID) (t_users db) = Inr u"
    using assms(4) firstWhere_None_present [of "t_users db" "\<lambda>u. User_ID u = userID"] by auto
  moreover obtain r where "firstWhere None (\<lambda>r. Role_ID r = roleID) (t_roles db) = Inr r"
    using assms(5) firstWhere_None_present [of "t_roles db" "\<lambda>r. Role_ID r = roleID"] by auto
  moreover obtain a where
    "firstWhere None (\<lambda>a. UserRole_UserID a = userID \<and> UserRole_RoleID a = roleID)
       (t_user_roles db) = Inr a"
    using assms(6)
      firstWhere_None_present [of "t_user_roles db"
        "\<lambda>a. UserRole_UserID a = userID \<and> UserRole_RoleID a = roleID"]
    by (auto simp: userRoleKey_def)
  ultimately show ?thesis
    using assms(1-3) by (simp add: AssignRoleToUser_def)
qed

lemma AssignRoleToUser_fresh:
  assumes "fault cn (Stmt 0) = None" "fault cn (Stmt 1) = None" "fault cn (Stmt 2) = None"
    "fault cn (Stmt 3) = None"
    "userID \<in> set (map User_ID (t_users db))" "roleID \<in> set (map Role_ID (t_roles db))"
    "(userID, roleID) \<notin> set (map userRoleKey (t_user_roles db))"
  shows "AssignRoleToUser cn now userID roleID grantedBy db =
           (None, db\<lparr>t_user_roles := t_user_roles db @
              [\<lparr>UserRole_UserID = userID, UserRole_RoleID = roleID,
                UserRole_GrantedBy = grantedBy, UserRole_GrantedAt = now\<rparr>]\<rparr>)"
proof -
  obtain u where "firstWhere None (\<lambda>u. User_ID u = userID) (t_users db) = Inr u"
    using assms(5) firstWhere_None_present [of "t_users db" "\<lambda>u. User_ID u = userID"] by auto
  moreover obtain r where "firstWhere None (\<lambda>r. Role_ID r = roleID) (t_roles db) = Inr r"
    using assms(6) firstWhere_None_present [of "t_roles db" "\<lambda>r. Role_ID r = roleID"] by auto
  moreover have
    "firstWhere None (\<lambda>a. UserRole_UserID a = userID \<and> UserRole_RoleID a = roleID)
       (t_user_roles db) = Inl ErrRecordNotFound"
    using assms(7) by (intro firstWhere_None_missing) (auto simp: userRoleKey_def image_iff)
  ultimately show ?thesis
    using assms(1-4,7) by (simp add: AssignRoleToUser_def createUserRoleRow_def userRoleKey_def)
qed

lemma RemoveRoleFromUser_missing:
  assumes "fault cn (Stmt 0) = None" "(userID, roleID) \<notin> set (map userRoleKey (t_user_roles db))"
  shows "RemoveRoleFromUser cn userID roleID db = (Some RoleAssignmentNotFound, db)"
proof -
  have "filter (\<lambda>a. UserRole_UserID a = userID \<and> UserRole_RoleID a = roleID) (t_user_roles db) = []"
    using assms(2) by (auto simp: filter_empty_conv userRoleKey_def image_iff)
  moreover have
    "filter (\<lambda>a. \<not> (UserRole_UserID a = userID \<and> UserRole_RoleID a = roleID)) (t_user_roles db)
       = t_user_roles db"
    using assms(2) by (auto simp: filter_id_conv userRoleKey_def image_iff)
  ultimately show ?thesis
    using assms(1) by (simp add: RemoveRoleFromUser_def deleteWhere_None)
qed

lemma RemoveRoleFromUser_present:
  assumes "fault cn (Stmt 0) = None" "(userID, roleID) \<in> set (map userRoleKey (t_user_roles db))"
  shows "RemoveRoleFromUser cn userID roleID db =
           (None, db\<lparr>t_user_roles := filter (\<lambda>a. userRoleKey a \<noteq> (userID, roleID)) (t_user_roles db)\<rparr>)"
proof -
  have "filter (\<lambda>a. UserRole_UserID a = userID \<and> UserRole_RoleID a = roleID) (t_user_roles db) \<noteq> []"
    using assms(2) by (auto simp: filter_empty_conv userRoleKey_def image_iff)
  moreover have "(\<lambda>a. \<not> (UserRole_UserID a = userID \<and> UserRole_RoleID a = roleID)) =
                 (\<lambda>a. userRoleKey a \<noteq> (userID, roleID))"
    by (auto simp: userRoleKey_def)
  ultimately show ?thesis
    using assms(1) by (simp add: RemoveRoleFromUser_def deleteWhere_None)
qed

lemma AssignRoleToUser_distinct:
  "distinct (map userRoleKey (t_user_roles db)) \<Longrightarrow>
   distinct (map userRoleKey (t_user_roles (snd (AssignRoleToUser cn now userID roleID grantedBy db))))"
  by (auto simp: AssignRoleToUser_def createUserRoleRow_def
      split: sum.splits option.splits if_splits)

text \<open>
  C8, on a connection without storage failures. \<^verbatim>\<open>AssignRoleToUser\<close> fails with "user not
  found" when no user has the id, with "role not found" when no role has the id, and with
  "user already has this role" when the pair is already assigned, each time leaving the
  database as it was; otherwise it succeeds and appends exactly one assignment row.
  \<^verbatim>\<open>RemoveRoleFromUser\<close> fails with "role assignment not found" when the pair is not
  assigned and removes the assignment otherwise. \<^verbatim>\<open>AssignRoleToUser\<close> keeps the pairs of
  the assignment table distinct: an identity holds a role at most once.
\<close>

theorem AssignRoleToUser_RemoveRoleFromUser_contract:
  assumes "\<forall>k. fault cn (Stmt k) = None"
  shows
    "(userID \<notin> set (map User_ID (t_users db)) \<longrightarrow>
        AssignRoleToUser cn now userID roleID grantedBy db =
          (Some (UserNotFound ErrRecordNotFound), db)) \<and>
     (userID \<in> set (map User_ID (t_users db)) \<and> roleID \<notin> set (map Role_ID (t_roles db)) \<longrightarrow>
        AssignRoleToUser cn now userID roleID grantedBy db =
          (Some (RoleNotFound ErrRecordNotFound), db)) \<and>
     (userID \<in> set (map User_ID (t_users db)) \<and> roleID \<in> set (map Role_ID (t_roles db)) \<and>
      (userID, roleID) \<in> set (map userRoleKey (t_user_roles db)) \<longrightarrow>
        AssignRoleToUser cn now userID roleID grantedBy db = (Some UserAlreadyHasRole, db)) \<and>
     (userID \<in> set (map User_ID (t_users db)) \<and> roleID \<in> set (map Role_ID (t_roles db)) \<and>
      (userID, roleID) \<notin> set (map userRoleKey (t_user_roles db)) \<longrightarrow>
        AssignRoleToUser cn now userID roleID grantedBy db =
          (None, db\<lparr>t_user_roles := t_user_roles db @
             [\<lparr>UserRole_UserID = userID, UserRole_RoleID = roleID,
               UserRole_GrantedBy = grantedBy, UserRole_GrantedAt = now\<rparr>]\<rparr>)) \<and>
     ((userID, roleID) \<notin> set (map userRoleKey (t_user_roles db)) \<longrightarrow>
        RemoveRoleFromUser cn userID roleID db = (Some RoleAssignmentNotFound, db)) \<and>
     ((userID, roleID) \<in> set (map userRoleKey (t_user_roles db)) \<longrightarrow>
        RemoveRoleFromUser cn userID roleID db =
          (None, db\<lparr>t_user_roles :=
             filter (\<lambda>a. userRoleKey a \<noteq> (userID, roleID)) (t_user_roles db)\<rparr>)) \<and>
     (distinct (map userRoleKey (t_user_roles db)) \<longrightarrow>
        distinct (map userRoleKey
          (t_user_roles (snd (AssignRoleToUser cn now userID roleID grantedBy db)))))"
  using assms
  by (intro conjI impI)
     (simp_all add: AssignRoleToUser_no_user AssignRoleToUser_no_role AssignRoleToUser_duplicate
        AssignRoleToUser_fresh RemoveRoleFromUser_missing RemoveRoleFromUser_present
        AssignRoleToUser_distinct)

text \<open>
  The theorem at the example database, where \<^verbatim>\<open>u1\<close> holds the role \<^verbatim>\<open>r-admin\<close> only.
\<close>

theorem AssignRoleToUser_RemoveRoleFromUser_contract_witness:
  "AssignRoleToUser exampleConn 5000000000 ''u9'' ''r-admin'' ''system'' exampleDB =
     (Some (UserNotFound ErrRecordNotFound), exampleDB) \<and>
   AssignRoleToUser exampleConn 5000000000 ''u1'' ''r-none'' ''system'' exampleDB =
     (Some (RoleNotFound ErrRecordNotFound), exampleDB) \<and>
   AssignRoleToUser exampleConn 5000000000 ''u1'' ''r-admin'' ''system'' exampleDB =
     (Some UserAlreadyHasRole, exampleDB) \<and>
   AssignRoleToUser exampleConn 5000000000 ''u1'' ''r-pract'' ''system'' exampleDB =
     (None, exampleDB\<lparr>t_user_roles := t_user_roles exampleDB @
        [\<lparr>UserRole_UserID = ''u1'', UserRole_RoleID = ''r-pract'',
          UserRole_GrantedBy = ''system'', UserRole_GrantedAt = 5000000000\<rparr>]\<rparr>) \<and>
   RemoveRoleFromUser exampleConn ''u1'' ''r-pract'' exampleDB =
     (Some RoleAssignmentNotFound, exampleDB) \<and>
   RemoveRoleFromUser exampleConn ''u1'' ''r-admin'' exampleDB =
     (None, exampleDB\<lparr>t_user_roles := []\<rparr>)"
proof -
  have nf: "\<forall>k. fault exampleConn (Stmt k) = None"
    by (simp add: exampleConn_noFault)
  have users: "set (map User_ID (t_users exampleDB)) = {''u1''}"
    and roles: "set (map Role_ID (t_roles exampleDB)) = {''r-admin'', ''r-pract''}"
    and keys: "set (map userRoleKey (t_user_roles exampleDB)) = {(''u1'', ''r-admin'')}"
    and flt: "filter (\<lambda>a. userRoleKey a \<noteq> (''u1'', ''r-admin'')) (t_user_roles exampleDB) = []"
    by (auto simp: exampleDB_def userRoleKey_def)
  note th = AssignRoleToUser_RemoveRoleFromUser_contract [OF nf, where db = exampleDB]
  from th [of "''u9''" 5000000000 "''r-admin''" "''system''"]
  have a: "AssignRoleToUser exampleConn 5000000000 ''u9'' ''r-admin'' ''system'' exampleDB =
     (Some (UserNotFound ErrRecordNotFound), exampleDB)"
    unfolding users roles keys by simp
  from th [of "''u1''" 5000000000 "''r-none''" "''system''"]
  have b: "AssignRoleToUser exampleConn 5000000000 ''u1'' ''r-none'' ''system'' exampleDB =
     (Some (RoleNotFound ErrRecordNotFound), exampleDB)"
    unfolding users roles keys by simp
  from th [of "''u1''" 5000000000 "''r-admin''" "''system''"]
  have c: "AssignRoleToUser exampleConn 5000000000 ''u1'' ''r-admin'' ''system'' exampleDB =
     (Some UserAlreadyHasRole, exampleDB)"
    and f: "RemoveRoleFromUser exampleConn ''u1'' ''r-admin'' exampleDB =
     (None, exampleDB\<lparr>t_user_roles := []\<rparr>)"
    unfolding users roles keys flt by simp_all
  from th [of "''u1''" 5000000000 "''r-pract''" "''system''"]
  have d: "AssignRoleToUser exampleConn 5000000000 ''u1'' ''r-pract'' ''system'' exampleDB =
     (None, exampleDB\<lparr>t_user_roles := t_user_roles exampleDB @
        [\<lparr>UserRole_UserID = ''u1'', UserRole_RoleID = ''r-pract'',
          UserRole_GrantedBy = ''system'', UserRole_GrantedAt = 5000000000\<rparr>]\<rparr>)"
    and e: "RemoveRoleFromUser exampleConn ''u1'' ''r-pract'' exampleDB =
     (Some RoleAssignmentNotFound, exampleDB)"
    unfolding users roles keys by simp_all
  from a b c d e f show ?thesis by simp
qed

subsection \<open>DeleteRole\<close>

text \<open>
  C6, as the code has it. \<^verbatim>\<open>DeleteRole\<close> is all or nothing: when it returns an error the
  database is as it was, and when it returns none the assignments, the permission links and
  the role row with the id are gone, nothing else has changed and no row refers to the id.
  Without storage failures it returns no error, also when no role has the id: the missing
  role is not reported, and the role table is then unchanged.
\<close>

theorem DeleteRole_all_or_nothing:
  "(case DeleteRole cn roleID db of
      (Some err, db2) \<Rightarrow> db2 = db
    | (None, db2) \<Rightarrow>
        t_user_roles db2 = filter (\<lambda>a. UserRole_RoleID a \<noteq> roleID) (t_user_roles db) \<and>
        t_role_permissions db2 =
          filter (\<lambda>l. RolePermission_RoleID l \<noteq> roleID) (t_role_permissions db) \<and>
        t_roles db2 = filter (\<lambda>r. Role_ID r \<noteq> roleID) (t_roles db) \<and>
        t_users db2 = t_users db \<and> t_permissions db2 = t_permissions db \<and>
        roleID \<notin> set (map UserRole_RoleID (t_user_roles db2)) \<and>
        roleID \<notin> set (map RolePermission_RoleID (t_role_permissions db2)) \<and>
        roleID \<notin> set (map Role_ID (t_roles db2))) \<and>
   ((\<forall>k. fault cn (Stmt k) = None) \<longrightarrow> fst (DeleteRole cn roleID db) = None) \<and>
   ((\<forall>k. fault cn (Stmt k) = None) \<and> roleID \<notin> set (map Role_ID (t_roles db)) \<longrightarrow>
      fst (DeleteRole cn roleID db) = None \<and>
      t_roles (snd (DeleteRole cn roleID db)) = t_roles db)"
proof (intro conjI impI)
  show "case DeleteRole cn roleID db of
      (Some err, db2) \<Rightarrow> db2 = db
    | (None, db2) \<Rightarrow>
        t_user_roles db2 = filter (\<lambda>a. UserRole_RoleID a \<noteq> roleID) (t_user_roles db) \<and>
        t_role_permissions db2 =
          filter (\<lambda>l. RolePermission_RoleID l \<noteq> roleID) (t_role_permissions db) \<and>
        t_roles db2 = filter (\<lambda>r. Role_ID r \<noteq> roleID) (t_roles db) \<and>
        t_users db2 = t_users db \<and> t_permissions db2 = t_permissions db \<and>
        roleID \<notin> set (map UserRole_RoleID (t_user_roles db2)) \<and>
        roleID \<notin> set (map RolePermission_RoleID (t_role_permissions db2)) \<and>
        roleID \<notin> set (map Role_ID (t_roles db2))"
    by (cases "fault cn (Stmt 0)"; cases "fault cn (Stmt 1)"; cases "fault cn (Stmt 2)";
        cases "fault cn (Stmt 3)")
       (auto simp: DeleteRole_def deleteWhere_def Let_def)
next
  assume "\<forall>k. fault cn (Stmt k) = None"
  then show "fst (DeleteRole cn roleID db) = None"
    by (simp add: DeleteRole_def deleteWhere_def Let_def)
next
  assume a: "(\<forall>k. fault cn (Stmt k) = None) \<and> roleID \<notin> set (map Role_ID (t_roles db))"
  then show "fst (DeleteRole cn roleID db) = None"
    by (simp add: DeleteRole_def deleteWhere_def Let_def)
  from a have "filter (\<lambda>r. Role_ID r \<noteq> roleID) (t_roles db) = t_roles db"
    by (auto simp: filter_id_conv)
  with a show "t_roles (snd (DeleteRole cn roleID db)) = t_roles db"
    by (simp add: DeleteRole_def deleteWhere_def Let_def)
qed

text \<open>
  The theorem at the example database: deleting \<^verbatim>\<open>r-admin\<close> removes its assignment and
  its link with it; when the third statement fails, nothing is removed.
\<close>

theorem DeleteRole_all_or_nothing_witness:
  "DeleteRole exampleConn ''r-admin'' exampleDB =
     (None,
      exampleDB\<lparr>t_roles :=
                   [\<lparr>Role_ID = ''r-pract'', Role_Name = ''practitioner'',
                     Role_Description = ''Default practitioner role'', Role_Permissions = []\<rparr>],
                 t_user_roles := [], t_role_permissions := []\<rparr>) \<and>
   DeleteRole (failingConn (Stmt 2))
       ''r-admin'' exampleDB =
     (Some (FailedToDeleteRole (ErrStorage ''connection lost'')), exampleDB)"
proof -
  have ok: "fst (DeleteRole exampleConn ''r-admin'' exampleDB) = None"
    using DeleteRole_all_or_nothing [where cn = exampleConn and roleID = "''r-admin''" and db = exampleDB]
    by (simp add: exampleConn_noFault)
  then obtain db2 where d: "DeleteRole exampleConn ''r-admin'' exampleDB = (None, db2)"
    by (cases "DeleteRole exampleConn ''r-admin'' exampleDB") auto
  with DeleteRole_all_or_nothing [where cn = exampleConn and roleID = "''r-admin''" and db = exampleDB]
  have "t_user_roles db2 = []" "t_role_permissions db2 = []"
    "t_roles db2 = [\<lparr>Role_ID = ''r-pract'', Role_Name = ''practitioner'',
                     Role_Description = ''Default practitioner role'', Role_Permissions = []\<rparr>]"
    "t_users db2 = t_users exampleDB" "t_permissions db2 = t_permissions exampleDB"
    by (simp_all add: exampleDB_def)
  then have "db2 = exampleDB\<lparr>t_roles :=
                   [\<lparr>Role_ID = ''r-pract'', Role_Name = ''practitioner'',
                     Role_Description = ''Default practitioner role'', Role_Permissions = []\<rparr>],
                 t_user_roles := [], t_role_permissions := []\<rparr>"
    by (cases db2) (simp add: exampleDB_def)
  with d have first: "DeleteRole exampleConn ''r-admin'' exampleDB =
     (None,
      exampleDB\<lparr>t_roles :=
                   [\<lparr>Role_ID = ''r-pract'', Role_Name = ''practitioner'',
                     Role_Description = ''Default practitioner role'', Role_Permissions = []\<rparr>],
                 t_user_roles := [], t_role_permissions := []\<rparr>)"
    by simp
  let ?cn = "failingConn (Stmt 2)"
  have e: "fst (DeleteRole ?cn ''r-admin'' exampleDB) = Some (FailedToDeleteRole (ErrStorage ''connection lost''))"
    by (simp add: DeleteRole_def deleteWhere_def Let_def failingConn_def failingAt_def)
  then obtain db3 where
    d3: "DeleteRole ?cn ''r-admin'' exampleDB = (Some (FailedToDeleteRole (ErrStorage ''connection lost'')), db3)"
    by (cases "DeleteRole ?cn ''r-admin'' exampleDB") auto
  with DeleteRole_all_or_nothing [where cn = ?cn and roleID = "''r-admin''" and db = exampleDB]
  have "db3 = exampleDB" by simp
  with d3 first show ?thesis by simp
qed

text \<open>
  C6 as stated fails: no role has the id \<^verbatim>\<open>r-none\<close>, and \<^verbatim>\<open>DeleteRole\<close> returns no error.
\<close>

theorem DeleteRole_missing_role_counterexample:
  "''r-none'' \<notin> set (map Role_ID (t_roles exampleDB)) \<and>
   DeleteRole exampleConn ''r-none'' exampleDB = (None, exampleDB)"
  by (simp add: DeleteRole_def deleteWhere_def Let_def exampleConn_def noFault_def exampleDB_def)

subsection \<open>InitializeDefaultRoles\<close>

lemma count_one_of_distinct:
  "distinct (map f xs) \<Longrightarrow> y \<in> set (map f xs) \<Longrightarrow> length (filter (\<lambda>x. f x = y) xs) = 1"
proof (induction xs)
  case Nil
  then show ?case by simp
next
  case (Cons x xs)
  show ?case
  proof (cases "f x = y")
    case True
    with Cons.prems have "y \<notin> f ` set xs" by simp
    then have "\<forall>z\<in>set xs. f z \<noteq> y" by blast
    then have "filter (\<lambda>x. f x = y) xs = []" by (simp add: filter_empty_conv)
    with True show ?thesis by simp
  next
    case False
    with Cons show ?thesis by auto
  qed
qed

lemma map_memberD: "y \<in> set (map f xs) \<Longrightarrow> \<exists>r\<in>set xs. f r = y"
  by auto

lemma map_not_memberD: "y \<notin> set (map f xs) \<Longrightarrow> \<forall>r\<in>set xs. f r \<noteq> y"
  by force

lemma seedPermissions_present:
  assumes "fault cn (LoopStmt 0 (Permission_Name perm)) = None"
    and "Permission_Name perm \<in> set (map Permission_Name (t_permissions db))"
  shows "seedPermissions cn (perm # rest) db = seedPermissions cn rest db"
proof -
  obtain r where "firstWhere None (\<lambda>p. Permission_Name p = Permission_Name perm) (t_permissions db) = Inr r"
    using map_memberD [OF assms(2)]
      firstWhere_None_present [of "t_permissions db" "\<lambda>p. Permission_Name p = Permission_Name perm"]
    by blast
  then show ?thesis using assms(1) by simp
qed

lemma seedPermissions_missing:
  assumes "fault cn (LoopStmt 0 (Permission_Name perm)) = None"
    and "fault cn (LoopStmt 1 (Permission_Name perm)) = None"
    and "Permission_Name perm \<notin> set (map Permission_Name (t_permissions db))"
    and "Permission_ID perm = []"
    and "uuid cn (LoopStmt 1 (Permission_Name perm)) \<notin> set (map Permission_ID (t_permissions db))"
  shows "seedPermissions cn (perm # rest) db =
           seedPermissions cn rest
             (db\<lparr>t_permissions := t_permissions db @
                [perm\<lparr>Permission_ID := uuid cn (LoopStmt 1 (Permission_Name perm))\<rparr>]\<rparr>)"
proof -
  have "firstWhere None (\<lambda>p. Permission_Name p = Permission_Name perm) (t_permissions db)
          = Inl ErrRecordNotFound"
    using map_not_memberD [OF assms(3)] by (intro firstWhere_None_missing)
  then show ?thesis
    using assms by (simp add: createPermissionRow_def Permission_BeforeCreate_def Let_def)
qed

lemma seedPermissions_all_present:
  assumes "\<forall>s. fault cn s = None"
    and "\<forall>p\<in>set ps. Permission_Name p \<in> set (map Permission_Name (t_permissions db))"
  shows "seedPermissions cn ps db = (None, db)"
  using assms
proof (induction ps)
  case Nil
  then show ?case by simp
next
  case (Cons p ps)
  then show ?case by (simp add: seedPermissions_present del: seedPermissions.simps(2))
qed

lemma seedPermissions_result:
  assumes "\<forall>s. fault cn s = None"
    and "distinct (map (\<lambda>p. uuid cn (LoopStmt 1 (Permission_Name p))) ps)"
    and "\<forall>p\<in>set ps. uuid cn (LoopStmt 1 (Permission_Name p))
            \<notin> set (map Permission_ID (t_permissions db))"
    and "\<forall>p\<in>set ps. Permission_ID p = []"
  shows "fst (seedPermissions cn ps db) = None \<and>
         t_users (snd (seedPermissions cn ps db)) = t_users db \<and>
         t_roles (snd (seedPermissions cn ps db)) = t_roles db \<and>
         t_user_roles (snd (seedPermissions cn ps db)) = t_user_roles db \<and>
         t_role_permissions (snd (seedPermissions cn ps db)) = t_role_permissions db \<and>
         (\<exists>new. t_permissions (snd (seedPermissions cn ps db)) = t_permissions db @ new \<and>
            map Permission_Name new =
              filter (\<lambda>n. n \<notin> set (map Permission_Name (t_permissions db)))
                (map Permission_Name ps))"
  using assms
proof (induction ps arbitrary: db)
  case Nil
  then show ?case by simp
next
  case (Cons p ps)
  let ?n = "Permission_Name p"
  have nf: "fault cn (LoopStmt 0 ?n) = None" "fault cn (LoopStmt 1 ?n) = None"
    using Cons.prems(1) by simp_all
  have "uuid cn (LoopStmt 1 ?n) \<notin> set (map (\<lambda>p. uuid cn (LoopStmt 1 (Permission_Name p))) ps)"
    using Cons.prems(2) by simp
  then have uu: "\<forall>q\<in>set ps. uuid cn (LoopStmt 1 (Permission_Name q)) \<noteq> uuid cn (LoopStmt 1 ?n)"
    by (rule map_not_memberD)
  have notin_rest: "?n \<notin> set (map Permission_Name ps)"
  proof
    assume "?n \<in> set (map Permission_Name ps)"
    then obtain q where "q \<in> set ps" "Permission_Name q = ?n" by auto
    then have "uuid cn (LoopStmt 1 ?n) \<in> (\<lambda>p. uuid cn (LoopStmt 1 (Permission_Name p))) ` set ps"
      by (intro image_eqI [of _ _ q]) simp_all
    with Cons.prems(2) show False by simp
  qed
  show ?case
  proof (cases "?n \<in> set (map Permission_Name (t_permissions db))")
    case True
    have step: "seedPermissions cn (p # ps) db = seedPermissions cn ps db"
      using nf(1) True by (rule seedPermissions_present)
    have "fst (seedPermissions cn ps db) = None \<and>
         t_users (snd (seedPermissions cn ps db)) = t_users db \<and>
         t_roles (snd (seedPermissions cn ps db)) = t_roles db \<and>
         t_user_roles (snd (seedPermissions cn ps db)) = t_user_roles db \<and>
         t_role_permissions (snd (seedPermissions cn ps db)) = t_role_permissions db \<and>
         (\<exists>new. t_permissions (snd (seedPermissions cn ps db)) = t_permissions db @ new \<and>
            map Permission_Name new =
              filter (\<lambda>n. n \<notin> set (map Permission_Name (t_permissions db)))
                (map Permission_Name ps))"
      using Cons.prems by (intro Cons.IH) simp_all
    then show ?thesis
      unfolding step using True by simp
  next
    case False
    let ?row = "p\<lparr>Permission_ID := uuid cn (LoopStmt 1 ?n)\<rparr>"
    let ?db1 = "db\<lparr>t_permissions := t_permissions db @ [?row]\<rparr>"
    have step: "seedPermissions cn (p # ps) db = seedPermissions cn ps ?db1"
      using nf False Cons.prems(3,4) by (intro seedPermissions_missing) simp_all
    have ih: "fst (seedPermissions cn ps ?db1) = None \<and>
         t_users (snd (seedPermissions cn ps ?db1)) = t_users ?db1 \<and>
         t_roles (snd (seedPermissions cn ps ?db1)) = t_roles ?db1 \<and>
         t_user_roles (snd (seedPermissions cn ps ?db1)) = t_user_roles ?db1 \<and>
         t_role_permissions (snd (seedPermissions cn ps ?db1)) = t_role_permissions ?db1 \<and>
         (\<exists>new. t_permissions (snd (seedPermissions cn ps ?db1)) = t_permissions ?db1 @ new \<and>
            map Permission_Name new =
              filter (\<lambda>n. n \<notin> set (map Permission_Name (t_permissions ?db1)))
                (map Permission_Name ps))"
    proof (intro Cons.IH)
      show "\<forall>s. fault cn s = None" by (rule Cons.prems(1))
      show "distinct (map (\<lambda>p. uuid cn (LoopStmt 1 (Permission_Name p))) ps)"
        using Cons.prems(2) by simp
      show "\<forall>q\<in>set ps. uuid cn (LoopStmt 1 (Permission_Name q))
              \<notin> set (map Permission_ID (t_permissions ?db1))"
        using Cons.prems(3) uu by simp
      show "\<forall>p\<in>set ps. Permission_ID p = []"
        using Cons.prems(4) by simp
    qed
    then obtain new where
      new: "t_permissions (snd (seedPermissions cn ps ?db1)) = t_permissions ?db1 @ new"
        "map Permission_Name new =
              filter (\<lambda>n. n \<notin> set (map Permission_Name (t_permissions ?db1)))
                (map Permission_Name ps)"
      by blast
    have flt: "filter (\<lambda>n. n \<notin> set (map Permission_Name (t_permissions ?db1))) (map Permission_Name ps)
             = filter (\<lambda>n. n \<notin> set (map Permission_Name (t_permissions db))) (map Permission_Name ps)"
    proof (rule filter_cong [OF refl])
      fix x
      assume "x \<in> set (map Permission_Name ps)"
      with notin_rest have "x \<noteq> ?n" by blast
      then show "(x \<notin> set (map Permission_Name (t_permissions ?db1))) =
                 (x \<notin> set (map Permission_Name (t_permissions db)))"
        by auto
    qed
    have "t_permissions (snd (seedPermissions cn ps ?db1)) = t_permissions db @ (?row # new) \<and>
          map Permission_Name (?row # new) =
              filter (\<lambda>n. n \<notin> set (map Permission_Name (t_permissions db)))
                (map Permission_Name (p # ps))"
      using new flt False by simp
    then have "\<exists>new. t_permissions (snd (seedPermissions cn ps ?db1)) = t_permissions db @ new \<and>
          map Permission_Name new =
              filter (\<lambda>n. n \<notin> set (map Permission_Name (t_permissions db)))
                (map Permission_Name (p # ps))"
      by blast
    with ih show ?thesis
      unfolding step by simp
  qed
qed

lemma seedRoles_present:
  assumes "fault cn (LoopStmt 2 roleName) = None"
    and "roleName \<in> set (map Role_Name (t_roles db))"
  shows "seedRoles cn ((roleName, permNames) # rest) db = seedRoles cn rest db"
proof -
  obtain r where "firstWhere None (\<lambda>r. Role_Name r = roleName) (t_roles db) = Inr r"
    using map_memberD [OF assms(2)]
      firstWhere_None_present [of "t_roles db" "\<lambda>r. Role_Name r = roleName"]
    by blast
  then show ?thesis using assms(1) by simp
qed

lemma seedRoles_missing:
  assumes "\<forall>s. fault cn s = None"
    and "roleName \<notin> set (map Role_Name (t_roles db))"
    and "uuid cn (LoopStmt 3 roleName) \<notin> set (map Role_ID (t_roles db))"
  shows "\<exists>db2. seedRoles cn ((roleName, permNames) # rest) db = seedRoles cn rest db2 \<and>
           t_roles db2 = t_roles db @
             [\<lparr>Role_ID = uuid cn (LoopStmt 3 roleName), Role_Name = roleName,
               Role_Description = ''Default '' @ roleName @ '' role'', Role_Permissions = []\<rparr>] \<and>
           t_permissions db2 = t_permissions db \<and> t_users db2 = t_users db \<and>
           t_user_roles db2 = t_user_roles db"
proof -
  let ?row = "\<lparr>Role_ID = uuid cn (LoopStmt 3 roleName), Role_Name = roleName,
               Role_Description = ''Default '' @ roleName @ '' role'', Role_Permissions = []\<rparr>"
  let ?db1 = "db\<lparr>t_roles := t_roles db @ [?row]\<rparr>"
  let ?perms = "filter (\<lambda>p. Permission_Name p \<in> set permNames) (t_permissions ?db1)"
  have look: "firstWhere None (\<lambda>r. Role_Name r = roleName) (t_roles db) = Inl ErrRecordNotFound"
    using map_not_memberD [OF assms(2)] by (intro firstWhere_None_missing)
  have create: "createRoleRow None (uuid cn (LoopStmt 3 roleName))
      \<lparr>Role_ID = [], Role_Name = roleName,
       Role_Description = ''Default '' @ roleName @ '' role'', Role_Permissions = []\<rparr> db
      = Inr (?row, ?db1)"
    using assms(2,3) by (simp add: createRoleRow_def Role_BeforeCreate_def Let_def)
  obtain role2 db2 where app: "appendPermissions None ?row ?perms ?db1 = Inr (role2, db2)"
    by (simp add: appendPermissions_def Let_def)
  note l = appendPermissions_links [OF app]
  have "seedRoles cn ((roleName, permNames) # rest) db = seedRoles cn rest db2"
    using assms(1) look create app by (simp add: findWhere_def)
  with l show ?thesis by auto
qed

lemma seedRoles_all_present:
  assumes "\<forall>s. fault cn s = None"
    and "\<forall>n\<in>set (map fst visit). n \<in> set (map Role_Name (t_roles db))"
  shows "seedRoles cn visit db = (None, db)"
  using assms
proof (induction visit)
  case Nil
  then show ?case by simp
next
  case (Cons e visit)
  obtain roleName permNames where e: "e = (roleName, permNames)" by (cases e)
  from Cons.prems have "seedRoles cn (e # visit) db = seedRoles cn visit db"
    unfolding e by (intro seedRoles_present) simp_all
  with Cons show ?case by simp
qed

lemma seedRoles_result:
  assumes "\<forall>s. fault cn s = None"
    and "distinct (map (\<lambda>n. uuid cn (LoopStmt 3 n)) (map fst visit))"
    and "\<forall>n\<in>set (map fst visit). uuid cn (LoopStmt 3 n) \<notin> set (map Role_ID (t_roles db))"
  shows "fst (seedRoles cn visit db) = None \<and>
         t_users (snd (seedRoles cn visit db)) = t_users db \<and>
         t_permissions (snd (seedRoles cn visit db)) = t_permissions db \<and>
         t_user_roles (snd (seedRoles cn visit db)) = t_user_roles db \<and>
         (\<exists>new. t_roles (snd (seedRoles cn visit db)) = t_roles db @ new \<and>
            map Role_Name new =
              filter (\<lambda>n. n \<notin> set (map Role_Name (t_roles db))) (map fst visit))"
  using assms
proof (induction visit arbitrary: db)
  case Nil
  then show ?case by simp
next
  case (Cons e visit)
  obtain roleName permNames where e: "e = (roleName, permNames)" by (cases e)
  have "uuid cn (LoopStmt 3 roleName) \<notin> set (map (\<lambda>n. uuid cn (LoopStmt 3 n)) (map fst visit))"
    using Cons.prems(2) unfolding e by simp
  then have uu: "\<forall>n\<in>set (map fst visit). uuid cn (LoopStmt 3 n) \<noteq> uuid cn (LoopStmt 3 roleName)"
    by (rule map_not_memberD)
  have notin_rest: "roleName \<notin> set (map fst visit)"
  proof
    assume "roleName \<in> set (map fst visit)"
    with uu show False by blast
  qed
  have d: "distinct (map (\<lambda>n. uuid cn (LoopStmt 3 n)) (map fst visit))"
    using Cons.prems(2) by simp
  show ?case
  proof (cases "roleName \<in> set (map Role_Name (t_roles db))")
    case True
    have step: "seedRoles cn (e # visit) db = seedRoles cn visit db"
      unfolding e using Cons.prems(1) True by (intro seedRoles_present) simp_all
    have "fst (seedRoles cn visit db) = None \<and>
         t_users (snd (seedRoles cn visit db)) = t_users db \<and>
         t_permissions (snd (seedRoles cn visit db)) = t_permissions db \<and>
         t_user_roles (snd (seedRoles cn visit db)) = t_user_roles db \<and>
         (\<exists>new. t_roles (snd (seedRoles cn visit db)) = t_roles db @ new \<and>
            map Role_Name new =
              filter (\<lambda>n. n \<notin> set (map Role_Name (t_roles db))) (map fst visit))"
      using Cons.prems(1,3) d by (intro Cons.IH) simp_all
    then show ?thesis
      unfolding step using True by (simp add: e)
  next
    case False
    have idfresh: "uuid cn (LoopStmt 3 roleName) \<notin> set (map Role_ID (t_roles db))"
      using Cons.prems(3) by (simp add: e)
    from seedRoles_missing [OF Cons.prems(1) False idfresh, of permNames visit]
    obtain db2 where
      step: "seedRoles cn (e # visit) db = seedRoles cn visit db2" and
      r2: "t_roles db2 = t_roles db @
             [\<lparr>Role_ID = uuid cn (LoopStmt 3 roleName), Role_Name = roleName,
               Role_Description = ''Default '' @ roleName @ '' role'', Role_Permissions = []\<rparr>]" and
      same: "t_permissions db2 = t_permissions db" "t_users db2 = t_users db"
        "t_user_roles db2 = t_user_roles db"
      unfolding e by blast
    have ih: "fst (seedRoles cn visit db2) = None \<and>
         t_users (snd (seedRoles cn visit db2)) = t_users db2 \<and>
         t_permissions (snd (seedRoles cn visit db2)) = t_permissions db2 \<and>
         t_user_roles (snd (seedRoles cn visit db2)) = t_user_roles db2 \<and>
         (\<exists>new. t_roles (snd (seedRoles cn visit db2)) = t_roles db2 @ new \<and>
            map Role_Name new =
              filter (\<lambda>n. n \<notin> set (map Role_Name (t_roles db2))) (map fst visit))"
    proof (intro Cons.IH)
      show "\<forall>s. fault cn s = None" by (rule Cons.prems(1))
      show "distinct (map (\<lambda>n. uuid cn (LoopStmt 3 n)) (map fst visit))" by (rule d)
      show "\<forall>n\<in>set (map fst visit). uuid cn (LoopStmt 3 n) \<notin> set (map Role_ID (t_roles db2))"
        using Cons.prems(3) uu by (simp add: r2)
    qed
    then obtain new where
      new: "t_roles (snd (seedRoles cn visit db2)) = t_roles db2 @ new"
        "map Role_Name new =
              filter (\<lambda>n. n \<notin> set (map Role_Name (t_roles db2))) (map fst visit)"
      by blast
    have flt: "filter (\<lambda>n. n \<notin> set (map Role_Name (t_roles db2))) (map fst visit)
             = filter (\<lambda>n. n \<notin> set (map Role_Name (t_roles db))) (map fst visit)"
    proof (rule filter_cong [OF refl])
      fix x
      assume "x \<in> set (map fst visit)"
      with notin_rest have "x \<noteq> roleName" by blast
      then show "(x \<notin> set (map Role_Name (t_roles db2))) =
                 (x \<notin> set (map Role_Name (t_roles db)))"
        by (auto simp: r2)
    qed
    let ?row = "\<lparr>Role_ID = uuid cn (LoopStmt 3 roleName), Role_Name = roleName,
               Role_Description = ''Default '' @ roleName @ '' role'', Role_Permissions = []\<rparr>"
    have "t_roles (snd (seedRoles cn visit db2)) = t_roles db @ (?row # new) \<and>
          map Role_Name (?row # new) =
              filter (\<lambda>n. n \<notin> set (map Role_Name (t_roles db))) (map fst (e # visit))"
      using new flt False by (simp add: r2 e)
    then have "\<exists>new. t_roles (snd (seedRoles cn visit db2)) = t_roles db @ new \<and>
          map Role_Name new =
              filter (\<lambda>n. n \<notin> set (map Role_Name (t_roles db))) (map fst (e # visit))"
      by blast
    with ih same show ?thesis
      unfolding step by simp
  qed
qed

lemma names_after_seeding:
  assumes "distinct old" "distinct wanted"
  shows "distinct (old @ filter (\<lambda>n. n \<notin> set old) wanted) \<and>
         set (old @ filter (\<lambda>n. n \<notin> set old) wanted) = set old \<union> set wanted"
  using assms by auto

lemma defaultPermissions_ids: "\<forall>p\<in>set defaultPermissions. Permission_ID p = []"
  by (simp add: defaultPermissions_def)

lemma defaultPermissions_names_distinct: "distinct (map Permission_Name defaultPermissions)"
  by (simp add: defaultPermissions_def)

text \<open>
  C7. Take a database that satisfies the unique indexes on the permission and the role
  names, connections on which no statement fails, and identifiers drawn by the hooks of the
  first run that are new and pairwise different. Then \<^verbatim>\<open>InitializeDefaultRoles\<close> returns
  no error, a second run on the resulting database (in any order of the role map, on any
  such connection) returns no error either and changes nothing, and the resulting database
  holds exactly one row for every default permission name and for every default role name,
  with no name stored twice.
\<close>

theorem InitializeDefaultRoles_idempotent:
  assumes nf1: "\<forall>s. fault cn1 s = None" and nf2: "\<forall>s. fault cn2 s = None"
    and uniqP: "distinct (map Permission_Name (t_permissions db))"
    and uniqR: "distinct (map Role_Name (t_roles db))"
    and idsP: "distinct (map (\<lambda>p. uuid cn1 (LoopStmt 1 (Permission_Name p))) defaultPermissions)"
    and freshP: "\<forall>p\<in>set defaultPermissions.
                   uuid cn1 (LoopStmt 1 (Permission_Name p))
                     \<notin> set (map Permission_ID (t_permissions db))"
    and idsR: "distinct (map (\<lambda>n. uuid cn1 (LoopStmt 3 n)) (map fst rolePermissions))"
    and freshR: "\<forall>n\<in>set (map fst rolePermissions).
                   uuid cn1 (LoopStmt 3 n) \<notin> set (map Role_ID (t_roles db))"
    and v1: "distinct (map fst visit1)" "set visit1 = set rolePermissions"
    and v2: "set visit2 = set rolePermissions"
  shows "\<exists>db1. InitializeDefaultRoles cn1 visit1 db = (None, db1) \<and>
           InitializeDefaultRoles cn2 visit2 db1 = (None, db1) \<and>
           (\<forall>n\<in>set (map Permission_Name defaultPermissions).
              length (filter (\<lambda>p. Permission_Name p = n) (t_permissions db1)) = 1) \<and>
           (\<forall>n\<in>set (map fst rolePermissions).
              length (filter (\<lambda>r. Role_Name r = n) (t_roles db1)) = 1) \<and>
           distinct (map Permission_Name (t_permissions db1)) \<and>
           distinct (map Role_Name (t_roles db1))"
proof -
  let ?dbP = "snd (seedPermissions cn1 defaultPermissions db)"
  let ?dbR = "snd (seedRoles cn1 visit1 ?dbP)"
  note P = seedPermissions_result [OF nf1 idsP freshP defaultPermissions_ids]
  from P obtain newP where
    okP: "fst (seedPermissions cn1 defaultPermissions db) = None" and
    rolesP: "t_roles ?dbP = t_roles db" and
    permsP: "t_permissions ?dbP = t_permissions db @ newP" and
    namesP: "map Permission_Name newP =
       filter (\<lambda>n. n \<notin> set (map Permission_Name (t_permissions db)))
         (map Permission_Name defaultPermissions)"
    by blast
  have pn: "map Permission_Name (t_permissions ?dbP) =
      map Permission_Name (t_permissions db) @
        filter (\<lambda>n. n \<notin> set (map Permission_Name (t_permissions db)))
          (map Permission_Name defaultPermissions)"
    by (simp add: permsP namesP)
  have keys: "set (map fst visit1) = set (map fst rolePermissions)"
    using v1(2) by simp
  have "inj_on (\<lambda>n. uuid cn1 (LoopStmt 3 n)) (set (map fst rolePermissions))"
    using idsR by (simp only: distinct_map)
  then have idsV: "distinct (map (\<lambda>n. uuid cn1 (LoopStmt 3 n)) (map fst visit1))"
    using v1(1) keys by (simp only: distinct_map)
  have freshV: "\<forall>n\<in>set (map fst visit1).
                   uuid cn1 (LoopStmt 3 n) \<notin> set (map Role_ID (t_roles ?dbP))"
    using freshR unfolding keys rolesP .
  note R = seedRoles_result [OF nf1 idsV freshV]
  from R obtain newR where
    okR: "fst (seedRoles cn1 visit1 ?dbP) = None" and
    permsR: "t_permissions ?dbR = t_permissions ?dbP" and
    rolesR: "t_roles ?dbR = t_roles ?dbP @ newR" and
    namesR: "map Role_Name newR =
       filter (\<lambda>n. n \<notin> set (map Role_Name (t_roles ?dbP))) (map fst visit1)"
    by blast
  have rn: "map Role_Name (t_roles ?dbR) =
      map Role_Name (t_roles db) @
        filter (\<lambda>n. n \<notin> set (map Role_Name (t_roles db))) (map fst visit1)"
    by (simp add: rolesR namesR rolesP)
  have dP: "distinct (map Permission_Name (t_permissions ?dbR))"
    and sP: "set (map Permission_Name (t_permissions ?dbR)) =
        set (map Permission_Name (t_permissions db)) \<union> set (map Permission_Name defaultPermissions)"
    unfolding permsR pn
    using names_after_seeding [OF uniqP defaultPermissions_names_distinct] by blast+
  have dR: "distinct (map Role_Name (t_roles ?dbR))"
    and sR: "set (map Role_Name (t_roles ?dbR)) =
        set (map Role_Name (t_roles db)) \<union> set (map fst visit1)"
    unfolding rn
    using names_after_seeding [OF uniqR v1(1)] by blast+
  have first: "InitializeDefaultRoles cn1 visit1 db = (None, ?dbR)"
  proof -
    obtain e d where ed: "seedPermissions cn1 defaultPermissions db = (e, d)"
      by (cases "seedPermissions cn1 defaultPermissions db")
    with okP have e: "e = None" by simp
    obtain e2 d2 where ed2: "seedRoles cn1 visit1 d = (e2, d2)"
      by (cases "seedRoles cn1 visit1 d")
    with okR ed have e2: "e2 = None" by simp
    show ?thesis
      by (simp add: InitializeDefaultRoles_def ed e ed2 e2)
  qed
  have second: "InitializeDefaultRoles cn2 visit2 ?dbR = (None, ?dbR)"
  proof -
    have "\<forall>p\<in>set defaultPermissions.
            Permission_Name p \<in> set (map Permission_Name (t_permissions ?dbR))"
      unfolding sP by simp
    then have a: "seedPermissions cn2 defaultPermissions ?dbR = (None, ?dbR)"
      by (rule seedPermissions_all_present [OF nf2])
    have "set (map fst visit2) = set (map fst visit1)"
      using v1(2) v2 by simp
    then have "\<forall>n\<in>set (map fst visit2). n \<in> set (map Role_Name (t_roles ?dbR))"
      unfolding sR by blast
    then have b: "seedRoles cn2 visit2 ?dbR = (None, ?dbR)"
      by (rule seedRoles_all_present [OF nf2])
    from a b show ?thesis
      by (simp add: InitializeDefaultRoles_def)
  qed
  have cP: "\<forall>n\<in>set (map Permission_Name defaultPermissions).
              length (filter (\<lambda>p. Permission_Name p = n) (t_permissions ?dbR)) = 1"
  proof
    fix n
    assume "n \<in> set (map Permission_Name defaultPermissions)"
    then have "n \<in> set (map Permission_Name (t_permissions ?dbR))"
      unfolding sP by blast
    with dP show "length (filter (\<lambda>p. Permission_Name p = n) (t_permissions ?dbR)) = 1"
      by (rule count_one_of_distinct)
  qed
  have cR: "\<forall>n\<in>set (map fst rolePermissions).
              length (filter (\<lambda>r. Role_Name r = n) (t_roles ?dbR)) = 1"
  proof
    fix n
    assume "n \<in> set (map fst rolePermissions)"
    then have "n \<in> set (map Role_Name (t_roles ?dbR))"
      unfolding sR keys by blast
    with dR show "length (filter (\<lambda>r. Role_Name r = n) (t_roles ?dbR)) = 1"
      by (rule count_one_of_distinct)
  qed
  from first second cP cR dP dR show ?thesis by blast
qed

text \<open>
  The theorem at the example database, which already holds one default permission and two
  default roles; the second run visits the role map in the reverse order.
\<close>

theorem InitializeDefaultRoles_idempotent_witness:
  "\<exists>db1. InitializeDefaultRoles exampleConn rolePermissions exampleDB = (None, db1) \<and>
     InitializeDefaultRoles exampleConn (rev rolePermissions) db1 = (None, db1) \<and>
     length (filter (\<lambda>p. Permission_Name p = ''patients:read'') (t_permissions db1)) = 1 \<and>
     length (filter (\<lambda>p. Permission_Name p = ''users:delete'') (t_permissions db1)) = 1 \<and>
     length (filter (\<lambda>r. Role_Name r = ''admin'') (t_roles db1)) = 1 \<and>
     length (filter (\<lambda>r. Role_Name r = ''lab-tech'') (t_roles db1)) = 1"
proof -
  have nf: "\<forall>s. fault exampleConn s = None"
    by (simp add: exampleConn_noFault)
  have uniqP: "distinct (map Permission_Name (t_permissions exampleDB))"
    and uniqR: "distinct (map Role_Name (t_roles exampleDB))"
    by (simp_all add: exampleDB_def)
  have idsP: "distinct (map (\<lambda>p. uuid exampleConn (LoopStmt 1 (Permission_Name p))) defaultPermissions)"
    by (simp add: defaultPermissions_def exampleConn_def exampleUuid_def)
  have freshP: "\<forall>p\<in>set defaultPermissions.
                   uuid exampleConn (LoopStmt 1 (Permission_Name p))
                     \<notin> set (map Permission_ID (t_permissions exampleDB))"
    by (simp add: defaultPermissions_def exampleConn_def exampleUuid_def exampleDB_def)
  have idsR: "distinct (map (\<lambda>n. uuid exampleConn (LoopStmt 3 n)) (map fst rolePermissions))"
    by (simp add: rolePermissions_def exampleConn_def exampleUuid_def)
  have freshR: "\<forall>n\<in>set (map fst rolePermissions).
                   uuid exampleConn (LoopStmt 3 n) \<notin> set (map Role_ID (t_roles exampleDB))"
    by (simp add: rolePermissions_def exampleConn_def exampleUuid_def exampleDB_def)
  have v1: "distinct (map fst rolePermissions)" "set rolePermissions = set rolePermissions"
    by (simp_all add: rolePermissions_def)
  have v2: "set (rev rolePermissions) = set rolePermissions"
    by simp
  from InitializeDefaultRoles_idempotent
         [OF nf nf uniqP uniqR idsP freshP idsR freshR v1 v2]
  obtain db1 where
    runs: "InitializeDefaultRoles exampleConn rolePermissions exampleDB = (None, db1)"
      "InitializeDefaultRoles exampleConn (rev rolePermissions) db1 = (None, db1)" and
    cP: "\<forall>n\<in>set (map Permission_Name defaultPermissions).
              length (filter (\<lambda>p. Permission_Name p = n) (t_permissions db1)) = 1" and
    cR: "\<forall>n\<in>set (map fst rolePermissions).
              length (filter (\<lambda>r. Role_Name r = n) (t_roles db1)) = 1"
    by blast
  have "''patients:read'' \<in> set (map Permission_Name defaultPermissions)"
    and "''users:delete'' \<in> set (map Permission_Name defaultPermissions)"
    by (simp_all add: defaultPermissions_def)
  with cP have p: "length (filter (\<lambda>p. Permission_Name p = ''patients:read'') (t_permissions db1)) = 1"
    "length (filter (\<lambda>p. Permission_Name p = ''users:delete'') (t_permissions db1)) = 1"
    by blast+
  have "''admin'' \<in> set (map fst rolePermissions)"
    and "''lab-tech'' \<in> set (map fst rolePermissions)"
    by (simp_all add: rolePermissions_def)
  with cR have r: "length (filter (\<lambda>r. Role_Name r = ''admin'') (t_roles db1)) = 1"
    "length (filter (\<lambda>r. Role_Name r = ''lab-tech'') (t_roles db1)) = 1"
    by blast+
  from runs p r show ?thesis by blast
qed

end
